theory Spec2Isabelle
  imports Main
begin

section \<open>The assistant agent: data model\<close>

text \<open>
  This theory embeds \<^verbatim>\<open>AssistantAgent\<close> of
  \<^verbatim>\<open>autogen_agentchat/agents/_assistant_agent.py\<close>: its constructor, one turn of
  \<^verbatim>\<open>on_messages_stream\<close>, the per-call executor \<^verbatim>\<open>_execute_tool_call\<close>, and
  reset, save and load.

  The agent talks to collaborators that are not part of the file: the model client, the
  tools and the memory providers. Each is a function here, and each takes and returns a
  world state of an arbitrary type \<open>'w\<close>, so that a collaborator may answer differently
  on every call. What the agent uses of the Python library is a parameter too. A raise
  is a value of \<open>py_exn\<close>.
\<close>

subsection \<open>Python exceptions\<close>

text \<open>
  The string of an exception is what \<^verbatim>\<open>str(e)\<close> gives. \<open>OtherException\<close> is any
  other subclass of \<^verbatim>\<open>Exception\<close>. \<open>BaseExceptionOnly\<close> is a raise outside the
  \<^verbatim>\<open>Exception\<close> hierarchy (\<^verbatim>\<open>asyncio.CancelledError\<close>, \<^verbatim>\<open>KeyboardInterrupt\<close>,
  \<^verbatim>\<open>SystemExit\<close>): \<^verbatim>\<open>except Exception\<close> does not catch it.
\<close>

datatype py_exn =
    ValueError string
  | TypeError string
  | AssertionError string
  | IndexError string
  | KeyError string
  | OtherException string
  | BaseExceptionOnly string

fun is_Exception :: "py_exn \<Rightarrow> bool" where
  "is_Exception (BaseExceptionOnly _) = False"
| "is_Exception _ = True"

fun exn_str :: "py_exn \<Rightarrow> string" where
  "exn_str (ValueError s) = s"
| "exn_str (TypeError s) = s"
| "exn_str (AssertionError s) = s"
| "exn_str (IndexError s) = s"
| "exn_str (KeyError s) = s"
| "exn_str (OtherException s) = s"
| "exn_str (BaseExceptionOnly s) = s"

subsection \<open>Messages\<close>

record FunctionCall =
  fc_id :: string
  fc_arguments :: string
  fc_name :: string

record FunctionExecutionResult =
  fer_content :: string
  fer_call_id :: string

record RequestUsage =
  prompt_tokens :: int
  completion_tokens :: int

text \<open>A part of a multi-modal content list: a string or an image (its data kept opaque).\<close>

datatype mm_item = TextPart string | ImagePart string

text \<open>The content of a \<^verbatim>\<open>UserMessage\<close>: \<^verbatim>\<open>str | List[str | Image]\<close>.\<close>

datatype user_content = UStr string | UParts "mm_item list"

text \<open>
  The content of an \<^verbatim>\<open>AssistantMessage\<close> and of a \<^verbatim>\<open>CreateResult\<close>:
  \<^verbatim>\<open>str | List[FunctionCall]\<close>.
\<close>

datatype assistant_content = AStr string | ACalls "FunctionCall list"

text \<open>\<^verbatim>\<open>LLMMessage\<close>: what the model context stores. User and assistant messages carry a source.\<close>

datatype LLMMessage =
    SystemMessage string
  | UserMessage user_content string
  | AssistantMessage assistant_content string
  | FunctionExecutionResultMessage "FunctionExecutionResult list"

text \<open>
  \<^verbatim>\<open>ChatMessage\<close>: what a caller passes in and what a Response carries. Every variant
  has \<open>content\<close>, \<open>source\<close> and \<open>models_usage\<close>, in this order; a handoff message has a
  \<open>target\<close> after its content.
\<close>

datatype ChatMessage =
    TextMessage string string "RequestUsage option"
  | MultiModalMessage "mm_item list" string "RequestUsage option"
  | StopMessage string string "RequestUsage option"
  | HandoffMessage string string string "RequestUsage option"
  | ToolCallSummaryMessage string string "RequestUsage option"

fun is_MultiModalMessage :: "ChatMessage \<Rightarrow> bool" where
  "is_MultiModalMessage (MultiModalMessage _ _ _) = True"
| "is_MultiModalMessage _ = False"

fun msg_content :: "ChatMessage \<Rightarrow> user_content" where
  "msg_content (TextMessage c _ _) = UStr c"
| "msg_content (MultiModalMessage c _ _) = UParts c"
| "msg_content (StopMessage c _ _) = UStr c"
| "msg_content (HandoffMessage c _ _ _) = UStr c"
| "msg_content (ToolCallSummaryMessage c _ _) = UStr c"

fun msg_source :: "ChatMessage \<Rightarrow> string" where
  "msg_source (TextMessage _ s _) = s"
| "msg_source (MultiModalMessage _ s _) = s"
| "msg_source (StopMessage _ s _) = s"
| "msg_source (HandoffMessage _ _ s _) = s"
| "msg_source (ToolCallSummaryMessage _ s _) = s"

fun msg_models_usage :: "ChatMessage \<Rightarrow> RequestUsage option" where
  "msg_models_usage (TextMessage _ _ u) = u"
| "msg_models_usage (MultiModalMessage _ _ u) = u"
| "msg_models_usage (StopMessage _ _ u) = u"
| "msg_models_usage (HandoffMessage _ _ _ u) = u"
| "msg_models_usage (ToolCallSummaryMessage _ _ u) = u"

text \<open>The content of a memory query result is kept as text.\<close>

type_synonym MemoryContent = string

text \<open>
  \<^verbatim>\<open>AgentEvent\<close>: a tool call request event has content, source and models usage; the two
  others have content and source.
\<close>

datatype AgentEvent =
    ToolCallRequestEvent "FunctionCall list" string "RequestUsage option"
  | ToolCallExecutionEvent "FunctionExecutionResult list" string
  | MemoryQueryEvent "MemoryContent list" string

text \<open>
  A Response. In this agent \<open>inner_messages\<close> only ever receives events, so the list is
  typed as a list of events.
\<close>

record Response =
  chat_message :: ChatMessage
  inner_messages :: "AgentEvent list"

text \<open>What the generator \<^verbatim>\<open>on_messages_stream\<close> yields.\<close>

datatype stream_item = YieldEvent AgentEvent | YieldResponse Response

text \<open>
  \<^verbatim>\<open>warnings.warn\<close> with the multiple handoffs message; the list is the list of handoff
  names that the message interpolates.
\<close>

datatype diagnostic = MultipleHandoffsWarning "string list"

subsection \<open>Collaborators\<close>

text \<open>
  A tool: \<^verbatim>\<open>name\<close>, \<^verbatim>\<open>run_json(arguments, cancellation_token)\<close>, which returns or
  raises and may change the world, and \<^verbatim>\<open>return_value_as_string\<close>.
\<close>

record ('j, 'r, 'w) Tool =
  tool_name :: string
  run_json :: "'j \<Rightarrow> 'w \<Rightarrow> (py_exn + 'r) \<times> 'w"
  return_value_as_string :: "'r \<Rightarrow> string"

text \<open>
  \<^verbatim>\<open>HandoffBase\<close> is declared outside the file. Its fields are \<open>target\<close>,
  \<open>description\<close>, \<open>name\<close> and \<open>message\<close>; its property \<^verbatim>\<open>handoff_tool\<close> is a
  field here.
\<close>

record ('j, 'r, 'w) HandoffBase =
  hb_target :: string
  hb_description :: string
  hb_name :: string
  hb_message :: string
  handoff_tool :: "('j, 'r, 'w) Tool"

record CreateResult =
  cr_content :: assistant_content
  cr_usage :: RequestUsage

text \<open>
  The model client: \<^verbatim>\<open>model_info["function_calling"]\<close>, \<^verbatim>\<open>model_info["vision"]\<close> and
  \<^verbatim>\<open>create(messages, tools=..., cancellation_token=...)\<close>.
\<close>

record ('j, 'r, 'w) ChatCompletionClient =
  function_calling :: bool
  vision :: bool
  create :: "LLMMessage list \<Rightarrow> ('j, 'r, 'w) Tool list \<Rightarrow> 'w \<Rightarrow> (py_exn + CreateResult) \<times> 'w"

text \<open>
  A memory provider is its \<^verbatim>\<open>update_context(model_context)\<close>: it returns or raises, it
  may rewrite the context it is given, and it may change the world. A result is \<open>None\<close>
  when it is falsy, and otherwise the list \<^verbatim>\<open>memories.results\<close>.
\<close>

type_synonym 'w Memory =
  "LLMMessage list \<Rightarrow> 'w \<Rightarrow> (py_exn + MemoryContent list option) \<times> LLMMessage list \<times> 'w"

text \<open>
  The Python library: \<open>json_loads\<close> is \<^verbatim>\<open>json.loads\<close>. \<open>format_beyond\<close> is
  \<^verbatim>\<open>str.format\<close> with keyword arguments, asked only for what \<open>str_format\<close> below
  does not compute itself: the rest of a template, from the first replacement field that
  is not a plain identifier on.
\<close>

record 'j python =
  json_loads :: "string \<Rightarrow> py_exn + 'j"
  format_beyond :: "string \<Rightarrow> (string \<times> string) list \<Rightarrow> py_exn + string"

subsection \<open>The model context\<close>

text \<open>
  Modelled from the spec: the class \<^verbatim>\<open>ChatCompletionContext\<close> is not part of the file.
  The spec's ContextStore is an ordered message history; \<open>append\<close> adds a message at the
  end with no validation, \<open>snapshot\<close> gives the ordered sequence of all messages, and
  \<open>clear\<close> empties the store.
\<close>

type_synonym ChatCompletionContext = "LLMMessage list"

definition add_message :: "ChatCompletionContext \<Rightarrow> LLMMessage \<Rightarrow> ChatCompletionContext" where
  "add_message ctx m = ctx @ [m]"

definition get_messages :: "ChatCompletionContext \<Rightarrow> LLMMessage list" where
  "get_messages ctx = ctx"

definition clear :: "ChatCompletionContext \<Rightarrow> ChatCompletionContext" where
  "clear ctx = []"

subsection \<open>The agent\<close>

record ('j, 'r, 'w) AssistantAgent =
  name :: string
  description :: string
  model_client :: "('j, 'r, 'w) ChatCompletionClient"
  memory :: "'w Memory list option"
  system_messages :: "LLMMessage list"
  tools :: "('j, 'r, 'w) Tool list"
  handoff_tools :: "('j, 'r, 'w) Tool list"
  handoffs :: "string \<rightharpoonup> ('j, 'r, 'w) HandoffBase"
  model_context :: ChatCompletionContext
  reflect_on_tool_use :: bool
  tool_call_summary_format :: string
  is_running :: bool

section \<open>Executing tool calls\<close>

subsection \<open>One call\<close>

definition quote :: "string \<Rightarrow> string" where
  "quote s = [CHR 0x27] @ s @ [CHR 0x27]"

text \<open>
  The body of the \<^verbatim>\<open>try\<close> block of \<^verbatim>\<open>_execute_tool_call\<close>.
\<close>

definition try_tool_call ::
  "('j, 'r, 'w) AssistantAgent \<Rightarrow> 'j python \<Rightarrow> FunctionCall \<Rightarrow> 'w
    \<Rightarrow> (py_exn + FunctionExecutionResult) \<times> 'w" where
  "try_tool_call self py tool_call w =
     (if tools self @ handoff_tools self = [] then
        (Inl (ValueError ''No tools are available.''), w)
      else
        (case find (\<lambda>t. tool_name t = fc_name tool_call) (tools self @ handoff_tools self) of
           None \<Rightarrow>
             (Inl (ValueError (''The tool '' @ quote (fc_name tool_call) @ '' is not available.'')), w)
         | Some tool \<Rightarrow>
             (case json_loads py (fc_arguments tool_call) of
                Inl e \<Rightarrow> (Inl e, w)
              | Inr arguments \<Rightarrow>
                  (case run_json tool arguments w of
                     (Inl e, w') \<Rightarrow> (Inl e, w')
                   | (Inr result, w') \<Rightarrow>
                       (Inr \<lparr>fer_content = return_value_as_string tool result,
                             fer_call_id = fc_id tool_call\<rparr>, w')))))"

text \<open>
  \<^verbatim>\<open>_execute_tool_call\<close>: \<^verbatim>\<open>except Exception as e\<close> turns an exception of the
  \<^verbatim>\<open>Exception\<close> hierarchy into a result; any other raise leaves the function.
\<close>

definition execute_tool_call ::
  "('j, 'r, 'w) AssistantAgent \<Rightarrow> 'j python \<Rightarrow> FunctionCall \<Rightarrow> 'w
    \<Rightarrow> (py_exn + FunctionExecutionResult) \<times> 'w" where
  "execute_tool_call self py tool_call w =
     (case try_tool_call self py tool_call w of
        (Inl e, w') \<Rightarrow>
          (if is_Exception e then
             (Inr \<lparr>fer_content = ''Error: '' @ exn_str e, fer_call_id = fc_id tool_call\<rparr>, w')
           else (Inl e, w'))
      | (Inr r, w') \<Rightarrow> (Inr r, w'))"

subsection \<open>The batch\<close>

text \<open>
  \<^verbatim>\<open>asyncio.gather\<close> starts every call and returns the results in the order of the
  calls, whatever the order in which they finish. A schedule is a list of positions: the
  calls finish in this order. Positions out of range or repeated are dropped, and the
  calls that the schedule leaves out finish after the others, in request order, so that
  every list of numbers is a schedule. Each call runs in one step on the world that the
  calls finished before it have left.
\<close>

definition completion_order :: "nat list \<Rightarrow> nat \<Rightarrow> nat list" where
  "completion_order schedule k =
     remdups (filter (\<lambda>i. i < k) schedule) @ filter (\<lambda>i. i \<notin> set schedule) [0..<k]"

text \<open>
  The finished calls are kept with their positions, ordered by position. The first raise
  that leaves a call is the raise of the batch. \<^verbatim>\<open>asyncio.gather\<close> does not cancel the
  other calls: those not yet finished still run, in their order, and what they return or
  raise is dropped.
\<close>

fun run_remaining ::
  "nat list \<Rightarrow> ('w \<Rightarrow> (py_exn + 'a) \<times> 'w) list \<Rightarrow> 'w \<Rightarrow> 'w" where
  "run_remaining [] tasks w = w"
| "run_remaining (i # rest) tasks w =
     (if i < length tasks then run_remaining rest tasks (snd ((tasks ! i) w))
      else run_remaining rest tasks w)"

fun run_tasks ::
  "nat list \<Rightarrow> ('w \<Rightarrow> (py_exn + 'a) \<times> 'w) list \<Rightarrow> (nat \<times> 'a) list \<Rightarrow> 'w
    \<Rightarrow> (py_exn + (nat \<times> 'a) list) \<times> 'w" where
  "run_tasks [] tasks finished w = (Inr finished, w)"
| "run_tasks (i # rest) tasks finished w =
     (if i < length tasks then
        (case (tasks ! i) w of
           (Inl e, w') \<Rightarrow> (Inl e, run_remaining rest tasks w')
         | (Inr r, w') \<Rightarrow> run_tasks rest tasks (insort_key fst (i, r) finished) w')
      else run_tasks rest tasks finished w)"

definition gather ::
  "nat list \<Rightarrow> ('w \<Rightarrow> (py_exn + 'a) \<times> 'w) list \<Rightarrow> 'w \<Rightarrow> (py_exn + 'a list) \<times> 'w" where
  "gather schedule tasks w =
     (case run_tasks (completion_order schedule (length tasks)) tasks [] w of
        (Inl e, w') \<Rightarrow> (Inl e, w')
      | (Inr finished, w') \<Rightarrow> (Inr (map snd finished), w'))"

text \<open>
  \<^verbatim>\<open>asyncio.gather(*[self._execute_tool_call(call, cancellation_token) for call in result.content])\<close>
\<close>

definition execute_tool_calls ::
  "('j, 'r, 'w) AssistantAgent \<Rightarrow> 'j python \<Rightarrow> nat list \<Rightarrow> FunctionCall list \<Rightarrow> 'w
    \<Rightarrow> (py_exn + FunctionExecutionResult list) \<times> 'w" where
  "execute_tool_calls self py schedule calls w =
     gather schedule (map (\<lambda>call. execute_tool_call self py call) calls) w"

section \<open>The tool call summary\<close>

subsection \<open>Formatting\<close>

text \<open>
  \<^verbatim>\<open>str.format\<close> with keyword arguments only. It reads a template from left to right
  and stops at the first error. Computed here: literal text, the escapes \<^verbatim>\<open>{{\<close> and
  \<^verbatim>\<open>}}\<close>, and replacement fields \<^verbatim>\<open>{name}\<close> whose name is an ASCII identifier. The
  values are strings, so such a field is replaced by its value as it is. A name that is
  not among the keywords raises \<^verbatim>\<open>KeyError\<close>, whose string is the name in single
  quotes; a brace with no partner raises \<^verbatim>\<open>ValueError\<close>. At any other replacement
  field (positional, with an attribute, an index, a conversion or a format
  specification) the rest of the template, from the opening brace of that field on, is
  handed to \<open>beyond\<close>, which stands for \<^verbatim>\<open>str.format\<close> itself.
\<close>

definition is_identifier_char :: "char \<Rightarrow> bool" where
  "is_identifier_char c =
     (c \<in> set ''abcdefghijklmnopqrstuvwxyzABCDEFGHIJKLMNOPQRSTUVWXYZ0123456789_'')"

definition is_identifier :: "string \<Rightarrow> bool" where
  "is_identifier f =
     (f \<noteq> [] \<and> list_all is_identifier_char f \<and> hd f \<notin> set ''0123456789'')"

text \<open>
  \<open>format_field\<close> reads a replacement field up to its closing brace, the name read so far
  in \<open>acc\<close>; \<open>str_format\<close> reads literal text.
\<close>

fun str_format ::
    "(string \<Rightarrow> (string \<times> string) list \<Rightarrow> py_exn + string) \<Rightarrow> string
      \<Rightarrow> (string \<times> string) list \<Rightarrow> py_exn + string"
  and format_field ::
    "(string \<Rightarrow> (string \<times> string) list \<Rightarrow> py_exn + string) \<Rightarrow> string \<Rightarrow> string
      \<Rightarrow> (string \<times> string) list \<Rightarrow> py_exn + string" where
  "str_format beyond [] kwargs = Inr []"
| "str_format beyond (c # cs) kwargs =
     (if c = CHR ''{'' then
        (case cs of
           [] \<Rightarrow> Inl (ValueError (''Single '' @ quote ''{'' @ '' encountered in format string''))
         | d # ds \<Rightarrow>
             if d = CHR ''{'' then
               (case str_format beyond ds kwargs of
                  Inl e \<Rightarrow> Inl e
                | Inr s \<Rightarrow> Inr (CHR ''{'' # s))
             else format_field beyond [] cs kwargs)
      else if c = CHR ''}'' then
        (case cs of
           [] \<Rightarrow> Inl (ValueError (''Single '' @ quote ''}'' @ '' encountered in format string''))
         | d # ds \<Rightarrow>
             if d = CHR ''}'' then
               (case str_format beyond ds kwargs of
                  Inl e \<Rightarrow> Inl e
                | Inr s \<Rightarrow> Inr (CHR ''}'' # s))
             else Inl (ValueError (''Single '' @ quote ''}'' @ '' encountered in format string'')))
      else
        (case str_format beyond cs kwargs of Inl e \<Rightarrow> Inl e | Inr s \<Rightarrow> Inr (c # s)))"
| "format_field beyond acc [] kwargs =
     Inl (ValueError (''expected '' @ quote ''}'' @ '' before end of string''))"
| "format_field beyond acc (c # cs) kwargs =
     (if c = CHR ''}'' then
        (if is_identifier acc then
           (case map_of kwargs acc of
              None \<Rightarrow> Inl (KeyError (quote acc))
            | Some v \<Rightarrow>
                (case str_format beyond cs kwargs of
                   Inl e \<Rightarrow> Inl e
                 | Inr s \<Rightarrow> Inr (v @ s)))
         else beyond (CHR ''{'' # acc @ c # cs) kwargs)
      else if is_identifier_char c then format_field beyond (acc @ [c]) cs kwargs
      else beyond (CHR ''{'' # acc @ c # cs) kwargs)"

text \<open>\<^verbatim>\<open>sep.join(items)\<close>\<close>

fun str_join :: "string \<Rightarrow> string list \<Rightarrow> string" where
  "str_join sep [] = []"
| "str_join sep [x] = x"
| "str_join sep (x # y # ys) = x @ sep @ str_join sep (y # ys)"

subsection \<open>The summaries of a batch\<close>

text \<open>
  \<open>format_summary\<close> is the call of \<^verbatim>\<open>self._tool_call_summary_format.format\<close> with the
  keywords \<open>tool_name\<close>, \<open>arguments\<close> and \<open>result\<close>. \<open>tool_call_summaries\<close> is the loop
  \<^verbatim>\<open>for i in range(len(tool_call_msg.content))\<close>, run on the list of the positions.
  Reading a list beyond its end raises \<^verbatim>\<open>IndexError\<close>.
\<close>

definition format_summary ::
  "'j python \<Rightarrow> string \<Rightarrow> FunctionCall \<Rightarrow> FunctionExecutionResult \<Rightarrow> py_exn + string" where
  "format_summary py fmt call result =
     str_format (format_beyond py) fmt
       [(''tool_name'', fc_name call),
        (''arguments'', fc_arguments call),
        (''result'', fer_content result)]"

fun tool_call_summaries ::
  "'j python \<Rightarrow> string \<Rightarrow> FunctionCall list \<Rightarrow> FunctionExecutionResult list \<Rightarrow> nat list
    \<Rightarrow> py_exn + string list" where
  "tool_call_summaries py fmt calls results [] = Inr []"
| "tool_call_summaries py fmt calls results (i # rest) =
     (if i < length calls \<and> i < length results then
        (case format_summary py fmt (calls ! i) (results ! i) of
           Inl e \<Rightarrow> Inl e
         | Inr s \<Rightarrow>
             (case tool_call_summaries py fmt calls results rest of
                Inl e \<Rightarrow> Inl e
              | Inr ss \<Rightarrow> Inr (s # ss)))
      else Inl (IndexError ''list index out of range''))"

section \<open>One turn\<close>

subsection \<open>Adding the messages to the model context\<close>

text \<open>
  The loop \<^verbatim>\<open>for msg in messages\<close> at the head of \<^verbatim>\<open>on_messages_stream\<close>. It
  returns the exception raised, if any, and the context as the loop has left it.
\<close>

fun add_messages ::
  "('j, 'r, 'w) AssistantAgent \<Rightarrow> ChatMessage list \<Rightarrow> ChatCompletionContext
    \<Rightarrow> py_exn option \<times> ChatCompletionContext" where
  "add_messages self [] ctx = (None, ctx)"
| "add_messages self (msg # msgs) ctx =
     (if is_MultiModalMessage msg \<and> \<not> vision (model_client self) then
        (Some (ValueError ''The model does not support vision.''), ctx)
      else
        add_messages self msgs (add_message ctx (UserMessage (msg_content msg) (msg_source msg))))"

subsection \<open>Updating the model context with memory content\<close>

text \<open>
  The loop \<^verbatim>\<open>for memory in self._memory\<close>. It returns the exception raised, if any,
  the memory query events yielded, and the context and the world as the loop has left
  them.
\<close>

fun update_memory ::
  "string \<Rightarrow> 'w Memory list \<Rightarrow> ChatCompletionContext \<Rightarrow> 'w
    \<Rightarrow> py_exn option \<times> AgentEvent list \<times> ChatCompletionContext \<times> 'w" where
  "update_memory nm [] ctx w = (None, [], ctx, w)"
| "update_memory nm (mem # mems) ctx w =
     (case mem ctx w of
        (Inl e, ctx', w') \<Rightarrow> (Some e, [], ctx', w')
      | (Inr update_context_result, ctx', w') \<Rightarrow>
          (let events =
                 (case update_context_result of
                    None \<Rightarrow> []
                  | Some [] \<Rightarrow> []
                  | Some (r # rs) \<Rightarrow> [MemoryQueryEvent (r # rs) nm])
           in (case update_memory nm mems ctx' w' of
                 (err, events', ctx'', w'') \<Rightarrow> (err, events @ events', ctx'', w''))))"

text \<open>\<^verbatim>\<open>if self._memory:\<close> skips the loop when there is no memory.\<close>

definition update_with_memory ::
  "('j, 'r, 'w) AssistantAgent \<Rightarrow> ChatCompletionContext \<Rightarrow> 'w
    \<Rightarrow> py_exn option \<times> AgentEvent list \<times> ChatCompletionContext \<times> 'w" where
  "update_with_memory self ctx w =
     (case memory self of
        None \<Rightarrow> (None, [], ctx, w)
      | Some mems \<Rightarrow> update_memory (name self) mems ctx w)"

subsection \<open>Detecting handoff requests\<close>

text \<open>The loop \<^verbatim>\<open>for call in result.content\<close> that collects the handoffs requested.\<close>

fun detect_handoffs ::
  "(string \<rightharpoonup> ('j, 'r, 'w) HandoffBase) \<Rightarrow> FunctionCall list \<Rightarrow> ('j, 'r, 'w) HandoffBase list" where
  "detect_handoffs hs [] = []"
| "detect_handoffs hs (call # calls) =
     (case hs (fc_name call) of
        None \<Rightarrow> detect_handoffs hs calls
      | Some h \<Rightarrow> h # detect_handoffs hs calls)"

subsection \<open>The turn\<close>

text \<open>
  What one run of the generator leaves: the items yielded, in order; the exception that
  ended it, if any; the warnings issued; the model context and the world after it.
  \<open>responses_of\<close> picks the Responses among the items yielded; \<open>is_tool_call_event\<close>
  tells the tool call request and execution events from the memory query events.
\<close>

fun is_tool_call_event :: "AgentEvent \<Rightarrow> bool" where
  "is_tool_call_event (ToolCallRequestEvent _ _ _) = True"
| "is_tool_call_event (ToolCallExecutionEvent _ _) = True"
| "is_tool_call_event (MemoryQueryEvent _ _) = False"

fun responses_of :: "stream_item list \<Rightarrow> Response list" where
  "responses_of [] = []"
| "responses_of (YieldEvent _ # items) = responses_of items"
| "responses_of (YieldResponse r # items) = r # responses_of items"

record 'w turn =
  yielded :: "stream_item list"
  raised :: "py_exn option"
  warned :: "diagnostic list"
  context_after :: ChatCompletionContext
  world_after :: 'w

text \<open>
  The part of \<^verbatim>\<open>on_messages_stream\<close> from \<^verbatim>\<open># Process tool calls.\<close> on: the inference
  result is a list of calls. \<open>inner\<close> holds the inner messages so far, \<open>ctx\<close> the model
  context, to which the assistant message has been added.
\<close>

definition process_tool_calls ::
  "('j, 'r, 'w) AssistantAgent \<Rightarrow> 'j python \<Rightarrow> nat list \<Rightarrow> AgentEvent list
    \<Rightarrow> ChatCompletionContext \<Rightarrow> FunctionCall list \<Rightarrow> RequestUsage \<Rightarrow> 'w \<Rightarrow> 'w turn" where
  "process_tool_calls self py schedule inner ctx calls usage w =
     (let tool_call_msg = ToolCallRequestEvent calls (name self) (Some usage);
          inner1 = inner @ [tool_call_msg]
      in
      case execute_tool_calls self py schedule calls w of
        (Inl e, w1) \<Rightarrow>
          \<lparr>yielded = map YieldEvent inner1, raised = Some e, warned = [],
           context_after = ctx, world_after = w1\<rparr>
      | (Inr results, w1) \<Rightarrow>
          (let tool_call_result_msg = ToolCallExecutionEvent results (name self);
               ctx1 = add_message ctx (FunctionExecutionResultMessage results);
               inner2 = inner1 @ [tool_call_result_msg]
           in
           case detect_handoffs (handoffs self) calls of
             h # hs \<Rightarrow>
               \<lparr>yielded = map YieldEvent inner2 @
                   [YieldResponse
                      \<lparr>chat_message = HandoffMessage (hb_message h) (hb_target h) (name self) None,
                       inner_messages = inner2\<rparr>],
                raised = None,
                warned = (if length (h # hs) > 1
                          then [MultipleHandoffsWarning (map hb_name (h # hs))] else []),
                context_after = ctx1, world_after = w1\<rparr>
           | [] \<Rightarrow>
               if reflect_on_tool_use self then
                 (case create (model_client self) (system_messages self @ get_messages ctx1) [] w1 of
                    (Inl e, w2) \<Rightarrow>
                      \<lparr>yielded = map YieldEvent inner2, raised = Some e, warned = [],
                       context_after = ctx1, world_after = w2\<rparr>
                  | (Inr result, w2) \<Rightarrow>
                      (case cr_content result of
                         ACalls _ \<Rightarrow>
                           \<lparr>yielded = map YieldEvent inner2, raised = Some (AssertionError []),
                            warned = [], context_after = ctx1, world_after = w2\<rparr>
                       | AStr text \<Rightarrow>
                           \<lparr>yielded = map YieldEvent inner2 @
                               [YieldResponse
                                  \<lparr>chat_message = TextMessage text (name self) (Some (cr_usage result)),
                                   inner_messages = inner2\<rparr>],
                            raised = None, warned = [],
                            context_after = add_message ctx1 (AssistantMessage (AStr text) (name self)),
                            world_after = w2\<rparr>))
               else
                 (case tool_call_summaries py (tool_call_summary_format self) calls results
                         [0..<length calls] of
                    Inl e \<Rightarrow>
                      \<lparr>yielded = map YieldEvent inner2, raised = Some e, warned = [],
                       context_after = ctx1, world_after = w1\<rparr>
                  | Inr summaries \<Rightarrow>
                      \<lparr>yielded = map YieldEvent inner2 @
                          [YieldResponse
                             \<lparr>chat_message =
                                ToolCallSummaryMessage (str_join [CHR 0x0A] summaries) (name self) None,
                              inner_messages = inner2\<rparr>],
                       raised = None, warned = [],
                       context_after = ctx1, world_after = w1\<rparr>)))"

text \<open>
  \<^verbatim>\<open>on_messages_stream\<close>. Besides the messages and the world it takes the Python
  library and the schedule of the tool calls of this turn.
\<close>

definition on_messages_stream ::
  "('j, 'r, 'w) AssistantAgent \<Rightarrow> 'j python \<Rightarrow> nat list \<Rightarrow> ChatMessage list
    \<Rightarrow> 'w \<Rightarrow> 'w turn" where
  "on_messages_stream self py schedule messages w =
     (case add_messages self messages (model_context self) of
        (Some e, ctx1) \<Rightarrow>
          \<lparr>yielded = [], raised = Some e, warned = [], context_after = ctx1, world_after = w\<rparr>
      | (None, ctx1) \<Rightarrow>
          (case update_with_memory self ctx1 w of
             (Some e, inner, ctx2, w2) \<Rightarrow>
               \<lparr>yielded = map YieldEvent inner, raised = Some e, warned = [],
                context_after = ctx2, world_after = w2\<rparr>
           | (None, inner, ctx2, w2) \<Rightarrow>
               (case create (model_client self) (system_messages self @ get_messages ctx2)
                       (tools self @ handoff_tools self) w2 of
                  (Inl e, w3) \<Rightarrow>
                    \<lparr>yielded = map YieldEvent inner, raised = Some e, warned = [],
                     context_after = ctx2, world_after = w3\<rparr>
                | (Inr result, w3) \<Rightarrow>
                    (let ctx3 = add_message ctx2 (AssistantMessage (cr_content result) (name self))
                     in
                     case cr_content result of
                       AStr text \<Rightarrow>
                         \<lparr>yielded = map YieldEvent inner @
                             [YieldResponse
                                \<lparr>chat_message = TextMessage text (name self) (Some (cr_usage result)),
                                 inner_messages = inner\<rparr>],
                          raised = None, warned = [], context_after = ctx3, world_after = w3\<rparr>
                     | ACalls calls \<Rightarrow>
                         process_tool_calls self py schedule inner ctx3 calls
                           (cr_usage result) w3))))"

section \<open>Construction, reset, save and load\<close>

subsection \<open>The constructor\<close>

text \<open>
  An entry of the argument \<open>tools\<close> is a \<^verbatim>\<open>Tool\<close>, or a callable, or something else. A
  callable is given by its \<^verbatim>\<open>__doc__\<close> and by what \<^verbatim>\<open>FunctionTool\<close> makes of it under
  a description. An entry of \<open>handoffs\<close> is a string, a \<^verbatim>\<open>HandoffBase\<close>, or something
  else. The argument \<open>memory\<close> is a list or something else.
\<close>

datatype ('j, 'r, 'w) tool_arg =
    ToolInstance "('j, 'r, 'w) Tool"
  | CallableArg "string option" "string \<Rightarrow> ('j, 'r, 'w) Tool"
  | UnsupportedTool

datatype ('j, 'r, 'w) handoff_arg =
    HandoffStr string
  | HandoffInstance "('j, 'r, 'w) HandoffBase"
  | UnsupportedHandoff

datatype 'w memory_arg = MemoryList "'w Memory list" | MemoryNotList

record ('j, 'r, 'w) init_args =
  arg_name :: string
  arg_model_client :: "('j, 'r, 'w) ChatCompletionClient"
  arg_tools :: "('j, 'r, 'w) tool_arg list option"
  arg_handoffs :: "('j, 'r, 'w) handoff_arg list option"
  arg_model_context :: "ChatCompletionContext option"
  arg_description :: string
  arg_system_message :: "string option"
  arg_reflect_on_tool_use :: bool
  arg_tool_call_summary_format :: string
  arg_memory :: "'w memory_arg option"

text \<open>The loop \<^verbatim>\<open>for tool in tools\<close>; \<open>acc\<close> is \<^verbatim>\<open>self._tools\<close>.\<close>

fun register_tools ::
  "('j, 'r, 'w) tool_arg list \<Rightarrow> ('j, 'r, 'w) Tool list \<Rightarrow> py_exn + ('j, 'r, 'w) Tool list" where
  "register_tools [] acc = Inr acc"
| "register_tools (ToolInstance tool # rest) acc = register_tools rest (acc @ [tool])"
| "register_tools (CallableArg doc function_tool # rest) acc =
     (let description = (case doc of Some d \<Rightarrow> d | None \<Rightarrow> [])
      in register_tools rest (acc @ [function_tool description]))"
| "register_tools (UnsupportedTool # rest) acc = Inl (ValueError ''Unsupported tool type: '')"

text \<open>
  The loop \<^verbatim>\<open>for handoff in handoffs\<close>; the accumulator is the pair of
  \<^verbatim>\<open>self._handoff_tools\<close> and \<^verbatim>\<open>self._handoffs\<close>. \<open>from_target\<close> is
  \<^verbatim>\<open>HandoffBase(target=...)\<close>.
\<close>

fun register_handoffs ::
  "(string \<Rightarrow> ('j, 'r, 'w) HandoffBase) \<Rightarrow> ('j, 'r, 'w) handoff_arg list
    \<Rightarrow> ('j, 'r, 'w) Tool list \<times> (string \<rightharpoonup> ('j, 'r, 'w) HandoffBase)
    \<Rightarrow> py_exn + ('j, 'r, 'w) Tool list \<times> (string \<rightharpoonup> ('j, 'r, 'w) HandoffBase)" where
  "register_handoffs from_target [] acc = Inr acc"
| "register_handoffs from_target (HandoffStr target # rest) (hts, hs) =
     (let handoff = from_target target
      in register_handoffs from_target rest
           (hts @ [handoff_tool handoff], hs(hb_name handoff \<mapsto> handoff)))"
| "register_handoffs from_target (HandoffInstance handoff # rest) (hts, hs) =
     register_handoffs from_target rest
       (hts @ [handoff_tool handoff], hs(hb_name handoff \<mapsto> handoff))"
| "register_handoffs from_target (UnsupportedHandoff # rest) acc =
     Inl (ValueError ''Unsupported handoff type: '')"

text \<open>
  \<^verbatim>\<open>AssistantAgent.__init__\<close>. The constructor of the base class is outside the file.
  Where a message interpolates a list or a type, the text before it is kept.
  \<^verbatim>\<open>len(set(names))\<close> is \<open>card (set names)\<close>.
\<close>

definition AssistantAgent_init ::
  "(string \<Rightarrow> ('j, 'r, 'w) HandoffBase) \<Rightarrow> ('j, 'r, 'w) init_args
    \<Rightarrow> py_exn + ('j, 'r, 'w) AssistantAgent" where
  "AssistantAgent_init from_target args =
     (case (case arg_memory args of
              None \<Rightarrow> Inr None
            | Some (MemoryList mems) \<Rightarrow> Inr (Some mems)
            | Some MemoryNotList \<Rightarrow> Inl (TypeError ''Expected Memory, List[Memory], or None, got '')) of
        Inl e \<Rightarrow> Inl e
      | Inr mem \<Rightarrow>
          (let sys = (case arg_system_message args of
                        None \<Rightarrow> []
                      | Some system_message \<Rightarrow> [SystemMessage system_message])
           in
           case (case arg_tools args of
                   None \<Rightarrow> Inr []
                 | Some ts \<Rightarrow>
                     if \<not> function_calling (arg_model_client args) then
                       Inl (ValueError ''The model does not support function calling.'')
                     else register_tools ts []) of
             Inl e \<Rightarrow> Inl e
           | Inr registered \<Rightarrow>
               (let tool_names = map tool_name registered in
                if length tool_names \<noteq> card (set tool_names) then
                  Inl (ValueError ''Tool names must be unique: '')
                else
                  (case (case arg_handoffs args of
                           None \<Rightarrow> Inr ([], Map.empty)
                         | Some hs \<Rightarrow>
                             if \<not> function_calling (arg_model_client args) then
                               Inl (ValueError
                                 ''The model does not support function calling, which is needed for handoffs.'')
                             else register_handoffs from_target hs ([], Map.empty)) of
                     Inl e \<Rightarrow> Inl e
                   | Inr (registered_handoff_tools, registered_handoffs) \<Rightarrow>
                       (let handoff_tool_names = map tool_name registered_handoff_tools in
                        if length handoff_tool_names \<noteq> card (set handoff_tool_names) then
                          Inl (ValueError ''Handoff names must be unique: '')
                        else if list_ex (\<lambda>n. n \<in> set tool_names) handoff_tool_names then
                          Inl (ValueError ''Handoff names must be unique from tool names. Handoff names: '')
                        else
                          Inr \<lparr>name = arg_name args,
                               description = arg_description args,
                               model_client = arg_model_client args,
                               memory = mem,
                               system_messages = sys,
                               tools = registered,
                               handoff_tools = registered_handoff_tools,
                               handoffs = registered_handoffs,
                               model_context =
                                 (case arg_model_context args of
                                    Some ctx \<Rightarrow> ctx
                                  | None \<Rightarrow> []),
                               reflect_on_tool_use = arg_reflect_on_tool_use args,
                               tool_call_summary_format = arg_tool_call_summary_format args,
                               is_running = False\<rparr>)))))"

subsection \<open>Reset\<close>

definition on_reset :: "('j, 'r, 'w) AssistantAgent \<Rightarrow> ('j, 'r, 'w) AssistantAgent" where
  "on_reset self = self\<lparr>model_context := clear (model_context self)\<rparr>"

subsection \<open>Save and load\<close>

text \<open>
  Modelled from the spec: \<^verbatim>\<open>save_state\<close> and \<^verbatim>\<open>load_state\<close> of the model context and
  the class \<^verbatim>\<open>AssistantAgentState\<close> are not part of the file. In the spec the saved state
  of the context store is an opaque, structurally serializable blob representing the full
  ordered message sequence, and loading a blob must reconstruct it message for message.
  The state of the agent has the one entry \<open>llm_context\<close>, which holds that blob; the
  mapping that \<^verbatim>\<open>model_dump\<close> gives and \<^verbatim>\<open>model_validate\<close> reads is this record.
\<close>

datatype context_state = ContextState "LLMMessage list"

definition context_save_state :: "ChatCompletionContext \<Rightarrow> context_state" where
  "context_save_state ctx = ContextState ctx"

fun context_load_state :: "ChatCompletionContext \<Rightarrow> context_state \<Rightarrow> ChatCompletionContext" where
  "context_load_state ctx (ContextState messages) = messages"

record AssistantAgentState =
  llm_context :: context_state

text \<open>\<^verbatim>\<open>save_state\<close> and \<^verbatim>\<open>load_state\<close> of the agent.\<close>

definition save_state :: "('j, 'r, 'w) AssistantAgent \<Rightarrow> AssistantAgentState" where
  "save_state self =
     (let model_context_state = context_save_state (model_context self)
      in \<lparr>llm_context = model_context_state\<rparr>)"

definition load_state ::
  "('j, 'r, 'w) AssistantAgent \<Rightarrow> AssistantAgentState \<Rightarrow> ('j, 'r, 'w) AssistantAgent" where
  "load_state self state =
     (let assistant_agent_state = state
      in self\<lparr>model_context :=
                context_load_state (model_context self) (llm_context assistant_agent_state)\<rparr>)"

section \<open>Example agents\<close>

text \<open>
  Concrete collaborators, on which the theorems below are run. JSON values and tool
  results are strings; the world counts the calls of the model client.
\<close>

definition example_usage :: RequestUsage where
  "example_usage = \<lparr>prompt_tokens = 10, completion_tokens = 5\<rparr>"

definition example_json_loads :: "string \<Rightarrow> py_exn + string" where
  "example_json_loads s =
     (if s = ''{}'' then Inr s else Inl (ValueError ''Expecting value: line 1 column 1 (char 0)''))"

text \<open>The example templates stay inside what \<open>str_format\<close> computes.\<close>

definition example_python :: "string python" where
  "example_python =
     \<lparr>json_loads = example_json_loads,
      format_beyond = (\<lambda>template kwargs.
        Inl (IndexError ''Replacement index 0 out of range for positional args tuple''))\<rparr>"

text \<open>A client that answers its \<open>n\<close>-th call with the \<open>n\<close>-th entry of a script.\<close>

definition scripted_client ::
  "bool \<Rightarrow> (py_exn + CreateResult) list \<Rightarrow> (string, string, nat) ChatCompletionClient" where
  "scripted_client has_vision script =
     \<lparr>function_calling = True,
      vision = has_vision,
      create = (\<lambda>messages ts n.
        (case drop n script of
           [] \<Rightarrow> Inl (OtherException ''script exhausted'')
         | reply # _ \<Rightarrow> reply, Suc n))\<rparr>"

definition text_reply :: "string \<Rightarrow> py_exn + CreateResult" where
  "text_reply s = Inr \<lparr>cr_content = AStr s, cr_usage = example_usage\<rparr>"

definition calls_reply :: "FunctionCall list \<Rightarrow> py_exn + CreateResult" where
  "calls_reply calls = Inr \<lparr>cr_content = ACalls calls, cr_usage = example_usage\<rparr>"

definition get_time :: "(string, string, nat) Tool" where
  "get_time =
     \<lparr>tool_name = ''get_time'',
      run_json = (\<lambda>arguments n. (Inr ''12:00'', n)),
      return_value_as_string = (\<lambda>r. r)\<rparr>"

definition broken_tool :: "(string, string, nat) Tool" where
  "broken_tool =
     \<lparr>tool_name = ''broken'',
      run_json = (\<lambda>arguments n. (Inl (OtherException ''boom''), n)),
      return_value_as_string = (\<lambda>r. r)\<rparr>"

definition cancelled_tool :: "(string, string, nat) Tool" where
  "cancelled_tool =
     \<lparr>tool_name = ''slow'',
      run_json = (\<lambda>arguments n. (Inl (BaseExceptionOnly ''CancelledError''), n)),
      return_value_as_string = (\<lambda>r. r)\<rparr>"

definition example_handoff :: "string \<Rightarrow> string \<Rightarrow> (string, string, nat) HandoffBase" where
  "example_handoff target nm =
     \<lparr>hb_target = target,
      hb_description = ''Handoff to '' @ target,
      hb_name = nm,
      hb_message = ''Transferred to '' @ target,
      handoff_tool =
        \<lparr>tool_name = nm,
         run_json = (\<lambda>arguments n. (Inr (''Transferred to '' @ target), n)),
         return_value_as_string = (\<lambda>r. r)\<rparr>\<rparr>"

definition example_agent ::
  "(string, string, nat) ChatCompletionClient \<Rightarrow> (string, string, nat) Tool list
    \<Rightarrow> (string, string, nat) HandoffBase list \<Rightarrow> bool \<Rightarrow> string
    \<Rightarrow> (string, string, nat) AssistantAgent" where
  "example_agent client ts hs reflect fmt =
     \<lparr>name = ''assistant'',
      description = ''An agent that provides assistance with ability to use tools.'',
      model_client = client,
      memory = None,
      system_messages = [SystemMessage ''You are a helpful AI assistant.''],
      tools = ts,
      handoff_tools = map handoff_tool hs,
      handoffs = map_of (map (\<lambda>h. (hb_name h, h)) hs),
      model_context = [],
      reflect_on_tool_use = reflect,
      tool_call_summary_format = fmt,
      is_running = False\<rparr>"

definition call1 :: FunctionCall where
  "call1 = \<lparr>fc_id = ''c1'', fc_arguments = ''{}'', fc_name = ''get_time''\<rparr>"

definition call2 :: FunctionCall where
  "call2 = \<lparr>fc_id = ''c2'', fc_arguments = ''{}'', fc_name = ''broken''\<rparr>"

definition call3 :: FunctionCall where
  "call3 = \<lparr>fc_id = ''c3'', fc_arguments = ''{}'', fc_name = ''slow''\<rparr>"

definition call_a :: FunctionCall where
  "call_a = \<lparr>fc_id = ''h1'', fc_arguments = ''{}'', fc_name = ''go_a''\<rparr>"

definition call_b :: FunctionCall where
  "call_b = \<lparr>fc_id = ''h2'', fc_arguments = ''not json'', fc_name = ''go_b''\<rparr>"

definition hello :: ChatMessage where
  "hello = TextMessage ''hi'' ''user'' None"

definition picture :: ChatMessage where
  "picture = MultiModalMessage [TextPart ''look'', ImagePart ''png''] ''user'' None"

definition example_init_args ::
  "(string, string, nat) tool_arg list \<Rightarrow> (string, string, nat) handoff_arg list
    \<Rightarrow> (string, string, nat) init_args" where
  "example_init_args ts hs =
     \<lparr>arg_name = ''assistant'',
      arg_model_client = scripted_client False [],
      arg_tools = Some ts,
      arg_handoffs = Some hs,
      arg_model_context = None,
      arg_description = ''An agent that provides assistance with ability to use tools.'',
      arg_system_message = None,
      arg_reflect_on_tool_use = False,
      arg_tool_call_summary_format = ''{result}'',
      arg_memory = None\<rparr>"

section \<open>Running the examples\<close>

lemmas example_defs =
  example_agent_def scripted_client_def text_reply_def calls_reply_def get_time_def
  broken_tool_def cancelled_tool_def example_handoff_def example_json_loads_def example_python_def
  call1_def call2_def call3_def call_a_def call_b_def hello_def picture_def

lemmas turn_defs =
  update_with_memory_def get_messages_def add_message_def execute_tool_calls_def gather_def
  completion_order_def execute_tool_call_def try_tool_call_def format_summary_def
  is_identifier_def is_identifier_char_def quote_def

lemmas upt_small = upt_rec[of 0] upt_rec[of 1] upt_rec[of 2] upt_rec[of 3] numeral_2_eq_2 numeral_3_eq_3

section \<open>The batch of tool calls\<close>

lemma completion_order_distinct: "distinct (completion_order schedule k)"
  by (auto simp: completion_order_def)

lemma completion_order_set: "set (completion_order schedule k) = {..<k}"
  by (auto simp: completion_order_def)

lemma run_tasks_keys:
  "run_tasks ord tasks fin w = (Inr fin', w') \<Longrightarrow> \<forall>i\<in>set ord. i < length tasks \<Longrightarrow>
     set (map fst fin') = set ord \<union> set (map fst fin) \<and> length fin' = length ord + length fin"
proof (induction ord arbitrary: fin w)
  case Nil
  then show ?case by simp
next
  case (Cons i rest)
  then show ?case
    by (auto split: prod.splits sum.splits simp: set_insort_key)
qed

lemma run_tasks_sorted:
  "run_tasks ord tasks fin w = (Inr fin', w') \<Longrightarrow> sorted (map fst fin) \<Longrightarrow> sorted (map fst fin')"
proof (induction ord arbitrary: fin w)
  case Nil
  then show ?case by simp
next
  case (Cons i rest)
  then show ?case
    by (auto split: prod.splits sum.splits if_splits simp: sorted_insort_key)
qed

lemma run_tasks_inv:
  "run_tasks ord tasks fin w = (Inr fin', w') \<Longrightarrow>
   (\<And>i v r v'. i < length tasks \<Longrightarrow> (tasks ! i) v = (Inr r, v') \<Longrightarrow> P i r) \<Longrightarrow>
   (\<And>i r. (i, r) \<in> set fin \<Longrightarrow> P i r) \<Longrightarrow> (i, r) \<in> set fin' \<Longrightarrow> P i r"
proof (induction ord arbitrary: fin w)
  case Nil
  then show ?case by simp
next
  case (Cons j rest)
  show ?case
  proof (cases "j < length tasks")
    case False
    with Cons.prems(1) have "run_tasks rest tasks fin w = (Inr fin', w')" by simp
    from Cons.IH[OF this Cons.prems(2) Cons.prems(3) Cons.prems(4)] show ?thesis by simp
  next
    case True
    obtain res v where tj: "(tasks ! j) w = (res, v)" by (cases "(tasks ! j) w")
    show ?thesis
    proof (cases res)
      case (Inl e)
      with Cons.prems(1) True tj show ?thesis by simp
    next
      case (Inr x)
      with Cons.prems(1) True tj
      have run: "run_tasks rest tasks (insort_key fst (j, x) fin) v = (Inr fin', w')" by simp
      have Pj: "P j x" using Cons.prems(2)[OF True] tj Inr by simp
      show ?thesis
      proof (rule Cons.IH[OF run Cons.prems(2) _ Cons.prems(4)])
        fix i' r' assume "(i', r') \<in> set (insort_key fst (j, x) fin)"
        then show "P i' r'" using Pj Cons.prems(3) by (auto simp: set_insort_key)
      qed
    qed
  qed
qed

lemma run_tasks_raise:
  "run_tasks ord tasks fin w = (Inl e, w') \<Longrightarrow> \<exists>i<length tasks. \<exists>v v'. (tasks ! i) v = (Inl e, v')"
proof (induction ord arbitrary: fin w)
  case Nil
  then show ?case by simp
next
  case (Cons j rest)
  then show ?case by (auto split: if_splits prod.splits sum.splits)
qed


lemma gather_Inr:
  assumes g: "gather schedule tasks w = (Inr results, w')"
    and P: "\<And>i v r v'. i < length tasks \<Longrightarrow> (tasks ! i) v = (Inr r, v') \<Longrightarrow> P i r"
  shows "length results = length tasks \<and> (\<forall>i<length tasks. P i (results ! i))"
proof -
  let ?ord = "completion_order schedule (length tasks)"
  from g obtain fin where run: "run_tasks ?ord tasks [] w = (Inr fin, w')"
    and res: "results = map snd fin"
    by (auto simp: gather_def split: prod.splits sum.splits)
  have inrange: "\<forall>i\<in>set ?ord. i < length tasks" by (simp add: completion_order_set)
  from run_tasks_keys[OF run inrange]
  have keys: "set (map fst fin) = {..<length tasks}" and len: "length fin = length ?ord"
    by (simp_all add: completion_order_set)
  have lord: "length ?ord = length tasks"
    using distinct_card[OF completion_order_distinct, of schedule "length tasks"]
    by (simp add: completion_order_set)
  have srt: "sorted (map fst fin)" using run_tasks_sorted[OF run] by simp
  have "card (set (map fst fin)) = length (map fst fin)" using keys len lord by simp
  then have dist: "distinct (map fst fin)" by (rule card_distinct)
  have fsts: "map fst fin = [0..<length tasks]"
    by (rule sorted_distinct_set_unique) (use srt dist keys in \<open>auto simp: atLeast0LessThan\<close>)
  have all: "\<And>i r. (i, r) \<in> set fin \<Longrightarrow> P i r"
    by (rule run_tasks_inv[OF run P]) auto
  have "\<forall>i<length tasks. P i (results ! i)"
  proof (intro allI impI)
    fix i assume i: "i < length tasks"
    then have ifin: "i < length fin" using len lord by simp
    have "fst (fin ! i) = i" using arg_cong[OF fsts, of "\<lambda>xs. xs ! i"] i ifin by simp
    moreover have "fin ! i \<in> set fin" using ifin by simp
    ultimately have "(i, snd (fin ! i)) \<in> set fin" by (metis prod.collapse)
    then have "P i (snd (fin ! i))" by (rule all)
    then show "P i (results ! i)" using res ifin by simp
  qed
  then show ?thesis using res len lord by simp
qed

lemma gather_raise:
  "gather schedule tasks w = (Inl e, w') \<Longrightarrow> \<exists>i<length tasks. \<exists>v v'. (tasks ! i) v = (Inl e, v')"
  by (auto simp: gather_def split: prod.splits sum.splits dest: run_tasks_raise)


lemma execute_tool_call_id:
  "execute_tool_call self py call v = (Inr r, v') \<Longrightarrow> fer_call_id r = fc_id call"
  by (auto simp: execute_tool_call_def try_tool_call_def split: prod.splits sum.splits if_splits option.splits)

lemma execute_tool_call_raise:
  "execute_tool_call self py call v = (Inl e, v') \<Longrightarrow> \<not> is_Exception e"
  by (auto simp: execute_tool_call_def split: prod.splits sum.splits if_splits)

lemma execute_tool_calls_results:
  assumes "execute_tool_calls self py schedule calls w = (Inr results, w')"
  shows "length results = length calls \<and> (\<forall>i<length calls. fer_call_id (results ! i) = fc_id (calls ! i))"
  using gather_Inr[where P = "\<lambda>i r. fer_call_id r = fc_id (calls ! i)"
      and tasks = "map (\<lambda>call. execute_tool_call self py call) calls", OF assms[unfolded execute_tool_calls_def]]
  by (simp add: execute_tool_call_id)

lemma execute_tool_calls_raise:
  assumes "execute_tool_calls self py schedule calls w = (Inl e, w')"
  shows "\<not> is_Exception e"
  using gather_raise[OF assms[unfolded execute_tool_calls_def]]
  by (auto dest: execute_tool_call_raise)

lemma update_memory_events:
  "update_memory nm mems ctx w = (err, events, ctx', w') \<Longrightarrow> e \<in> set events \<Longrightarrow> \<not> is_tool_call_event e"
proof (induction mems arbitrary: ctx w err events ctx' w')
  case Nil
  then show ?case by simp
next
  case (Cons mem mems)
  then show ?case
    by (fastforce split: prod.splits sum.splits option.splits list.splits)
qed

lemma update_with_memory_events:
  "update_with_memory self ctx w = (err, events, ctx', w') \<Longrightarrow> e \<in> set events \<Longrightarrow> \<not> is_tool_call_event e"
  by (auto simp: update_with_memory_def split: option.splits dest: update_memory_events)

lemma process_tool_calls_execution_event:
  assumes "YieldEvent (ToolCallExecutionEvent results src) \<in>
             set (yielded (process_tool_calls self py schedule inner ctx calls usage w))"
    and "\<forall>e\<in>set inner. \<not> is_tool_call_event e"
  shows "\<exists>w'. execute_tool_calls self py schedule calls w = (Inr results, w')"
  using assms
  by (auto simp: process_tool_calls_def Let_def split: prod.splits sum.splits list.splits if_splits assistant_content.splits)

lemma process_tool_calls_request_event:
  "YieldEvent (ToolCallRequestEvent calls (name self) (Some usage)) \<in>
             set (yielded (process_tool_calls self py schedule inner ctx calls usage w))"
  by (auto simp: process_tool_calls_def Let_def split: prod.splits sum.splits list.splits if_splits assistant_content.splits)

lemma turn_execution_event:
  assumes "YieldEvent (ToolCallExecutionEvent results src) \<in>
             set (yielded (on_messages_stream self py schedule messages w))"
  shows "\<exists>calls usage. YieldEvent (ToolCallRequestEvent calls src usage) \<in>
             set (yielded (on_messages_stream self py schedule messages w))
           \<and> length results = length calls
           \<and> (\<forall>i<length calls. fer_call_id (results ! i) = fc_id (calls ! i))"
proof -
  obtain err ctx1 where am: "add_messages self messages (model_context self) = (err, ctx1)"
    by (cases "add_messages self messages (model_context self)")
  obtain merr inner ctx2 w2 where um: "update_with_memory self ctx1 w = (merr, inner, ctx2, w2)"
    by (cases "update_with_memory self ctx1 w")
  have inner: "\<forall>e\<in>set inner. \<not> is_tool_call_event e"
    using update_with_memory_events[OF um] by blast
  obtain res w3 where cr: "create (model_client self) (system_messages self @ get_messages ctx2)
      (tools self @ handoff_tools self) w2 = (res, w3)"
    by (cases "create (model_client self) (system_messages self @ get_messages ctx2)
      (tools self @ handoff_tools self) w2")
  show ?thesis
  proof (cases err)
    case (Some e)
    with assms am show ?thesis by (simp add: on_messages_stream_def)
  next
    case None
    note e1 = this
    show ?thesis
    proof (cases merr)
      case (Some e)
      with assms am um e1 inner show ?thesis by (auto simp: on_messages_stream_def)
    next
      case None
      note e2 = this
      show ?thesis
      proof (cases res)
        case (Inl e)
        with assms am um e1 e2 cr inner show ?thesis by (auto simp: on_messages_stream_def)
      next
        case (Inr result)
        note e3 = this
        show ?thesis
        proof (cases "cr_content result")
          case (AStr reply)
          with assms am um e1 e2 e3 cr inner show ?thesis
            by (auto simp: on_messages_stream_def)
        next
          case (ACalls calls)
          let ?ctx3 = "add_message ctx2 (AssistantMessage (ACalls calls) (name self))"
          have eq: "on_messages_stream self py schedule messages w =
              process_tool_calls self py schedule inner ?ctx3 calls (cr_usage result) w3"
            using am um e1 e2 e3 cr ACalls by (simp add: on_messages_stream_def)
          from process_tool_calls_execution_event[OF assms[unfolded eq] inner]
          obtain w' where ex: "execute_tool_calls self py schedule calls w3 = (Inr results, w')"
            by blast
          have src: "src = name self" using assms[unfolded eq] inner ex
            by (auto simp: process_tool_calls_def Let_def split: list.splits if_splits prod.splits sum.splits assistant_content.splits)
          show ?thesis
            using execute_tool_calls_results[OF ex] process_tool_calls_request_event[of calls self "cr_usage result" py schedule inner ?ctx3 w3]
            unfolding eq src by blast
        qed
      qed
    qed
  qed
qed

text \<open>
  Claim C1. Whatever the schedule, the batch either returns a list of results that is as
  long as the list of requests and whose entry at each position carries the call id of
  the request at that position, or it is left by a raise that is not an \<^verbatim>\<open>Exception\<close>.
  In a turn, every tool call execution event yielded comes with a tool call request
  event yielded by the same turn, of the same length and with the same call ids position
  by position.
\<close>

theorem results_follow_requests:
  "(case execute_tool_calls self py schedule calls w of
      (Inr results, w') \<Rightarrow>
        length results = length calls \<and>
        (\<forall>i<length calls. fer_call_id (results ! i) = fc_id (calls ! i))
    | (Inl e, w') \<Rightarrow> \<not> is_Exception e)
   \<and> (YieldEvent (ToolCallExecutionEvent yielded_results src) \<in>
         set (yielded (on_messages_stream self py schedule messages v)) \<longrightarrow>
       (\<exists>requested usage.
          YieldEvent (ToolCallRequestEvent requested src usage) \<in>
            set (yielded (on_messages_stream self py schedule messages v))
          \<and> length yielded_results = length requested
          \<and> (\<forall>i<length requested. fer_call_id (yielded_results ! i) = fc_id (requested ! i))))"
proof (intro conjI impI)
  show "case execute_tool_calls self py schedule calls w of
      (Inr results, w') \<Rightarrow>
        length results = length calls \<and>
        (\<forall>i<length calls. fer_call_id (results ! i) = fc_id (calls ! i))
    | (Inl e, w') \<Rightarrow> \<not> is_Exception e"
    using execute_tool_calls_results[of self py schedule calls w]
      execute_tool_calls_raise[of self py schedule calls w]
    by (auto split: prod.splits sum.splits)
next
  assume "YieldEvent (ToolCallExecutionEvent yielded_results src) \<in>
         set (yielded (on_messages_stream self py schedule messages v))"
  then show "\<exists>requested usage.
          YieldEvent (ToolCallRequestEvent requested src usage) \<in>
            set (yielded (on_messages_stream self py schedule messages v))
          \<and> length yielded_results = length requested
          \<and> (\<forall>i<length requested. fer_call_id (yielded_results ! i) = fc_id (requested ! i))"
    by (rule turn_execution_event)
qed

theorem results_follow_requests_witness:
  "execute_tool_calls
      (example_agent (scripted_client False [calls_reply [call1, call2]]) [get_time, broken_tool] []
         False ''{result}'')
      example_python [1, 0] [call1, call2] (Suc 0)
     = (Inr [\<lparr>fer_content = ''12:00'', fer_call_id = ''c1''\<rparr>,
             \<lparr>fer_content = ''Error: boom'', fer_call_id = ''c2''\<rparr>], Suc 0)
   \<and> YieldEvent (ToolCallExecutionEvent
        [\<lparr>fer_content = ''12:00'', fer_call_id = ''c1''\<rparr>,
         \<lparr>fer_content = ''Error: boom'', fer_call_id = ''c2''\<rparr>] ''assistant'')
      \<in> set (yielded (on_messages_stream
          (example_agent (scripted_client False [calls_reply [call1, call2]]) [get_time, broken_tool] []
             False ''{result}'')
          example_python [1, 0] [hello] 0))
   \<and> (\<exists>requested usage.
          YieldEvent (ToolCallRequestEvent requested ''assistant'' usage) \<in>
            set (yielded (on_messages_stream
              (example_agent (scripted_client False [calls_reply [call1, call2]]) [get_time, broken_tool] []
                 False ''{result}'')
              example_python [1, 0] [hello] 0))
          \<and> length requested = 2
          \<and> (\<forall>i<length requested.
                fer_call_id ([\<lparr>fer_content = ''12:00'', fer_call_id = ''c1''\<rparr>,
                              \<lparr>fer_content = ''Error: boom'', fer_call_id = ''c2''\<rparr>] ! i)
                  = fc_id (requested ! i)))"
proof -
  let ?a = "example_agent (scripted_client False [calls_reply [call1, call2]]) [get_time, broken_tool] []
         False ''{result}''"
  let ?res = "[\<lparr>fer_content = ''12:00'', fer_call_id = ''c1''\<rparr>,
             \<lparr>fer_content = ''Error: boom'', fer_call_id = ''c2''\<rparr>]"
  have batch: "execute_tool_calls ?a example_python [1, 0] [call1, call2] (Suc 0) = (Inr ?res, Suc 0)"
    by (simp add: example_defs turn_defs upt_small)
  have ev: "YieldEvent (ToolCallExecutionEvent ?res ''assistant'')
      \<in> set (yielded (on_messages_stream ?a example_python [1, 0] [hello] 0))"
    by (simp add: on_messages_stream_def process_tool_calls_def Let_def example_defs turn_defs upt_small)
  show ?thesis
    using batch ev
      results_follow_requests [where self = ?a and py = example_python and schedule = "[1, 0]"
          and calls = "[call1, call2]" and w = "Suc 0" and yielded_results = ?res
          and src = "''assistant''" and messages = "[hello]" and v = 0]
    by auto
qed

section \<open>Adding the messages: what the context receives\<close>

lemma add_messages_context:
  "snd (add_messages self messages ctx) =
     ctx @ map (\<lambda>m. UserMessage (msg_content m) (msg_source m))
             (takeWhile (\<lambda>m. \<not> (is_MultiModalMessage m \<and> \<not> vision (model_client self))) messages)"
  by (induction messages arbitrary: ctx) (auto simp: add_message_def)

lemma add_messages_outcome:
  "fst (add_messages self messages ctx) =
     (if \<exists>m\<in>set messages. is_MultiModalMessage m \<and> \<not> vision (model_client self)
      then Some (ValueError ''The model does not support vision.'') else None)"
  by (induction messages arbitrary: ctx) auto

lemma same_content_same_kind:
  "msg_content m = msg_content m' \<Longrightarrow> is_MultiModalMessage m = is_MultiModalMessage m'"
  by (cases m; cases m') auto

lemma add_messages_cong:
  "msg_content m = msg_content m' \<Longrightarrow> msg_source m = msg_source m' \<Longrightarrow>
     add_messages self (before @ m # after) ctx = add_messages self (before @ m' # after) ctx"
  by (induction before arbitrary: ctx) (auto dest: same_content_same_kind)

text \<open>
  Claim C10. Every entry that the ingestion loop appends to the model context is a
  \<open>UserMessage\<close> made of the content and the source of the incoming message, one entry
  per message and in the order of the batch, up to the message at which the loop raises,
  if it does. Nothing else of the message is kept: two messages with the same content
  and the same source, of whatever variant and with whatever usage, at the same place of
  a batch, leave the same context and the same outcome.
\<close>

theorem ingestion_stores_user_messages:
  "snd (add_messages self messages ctx) =
     ctx @ map (\<lambda>m. UserMessage (msg_content m) (msg_source m))
             (takeWhile (\<lambda>m. \<not> (is_MultiModalMessage m \<and> \<not> vision (model_client self))) messages)
   \<and> (msg_content m = msg_content m' \<and> msg_source m = msg_source m' \<longrightarrow>
        add_messages self (before @ m # after) ctx = add_messages self (before @ m' # after) ctx)"
  using add_messages_context add_messages_cong by blast

theorem ingestion_stores_user_messages_witness:
  "msg_content hello = msg_content (StopMessage ''hi'' ''user'' (Some example_usage))
   \<and> msg_source hello = msg_source (StopMessage ''hi'' ''user'' (Some example_usage))
   \<and> add_messages (example_agent (scripted_client False []) [] [] False ''{result}'')
        [hello] []
      = (None, [UserMessage (UStr ''hi'') ''user''])
   \<and> add_messages (example_agent (scripted_client False []) [] [] False ''{result}'')
        [StopMessage ''hi'' ''user'' (Some example_usage)] []
      = (None, [UserMessage (UStr ''hi'') ''user''])"
  using ingestion_stores_user_messages
      [of "example_agent (scripted_client False []) [] [] False ''{result}''" "[hello]" "[]"
        hello "StopMessage ''hi'' ''user'' (Some example_usage)" "[]" "[]"]
  by (simp add: hello_def add_message_def)

text \<open>
  Claim C4, as the code has it. When the model has no vision and the batch holds a
  multi-modal message, the turn raises \<^verbatim>\<open>ValueError\<close> in the ingestion loop: nothing is
  yielded, no collaborator is called (the world is the one the turn started in), and the
  model context has received, as user messages, the messages of the batch that come
  before the first multi-modal one.
\<close>

theorem vision_refusal_keeps_earlier_messages:
  assumes "\<not> vision (model_client self)" and "\<exists>m\<in>set messages. is_MultiModalMessage m"
  shows "on_messages_stream self py schedule messages w =
           \<lparr>yielded = [],
            raised = Some (ValueError ''The model does not support vision.''),
            warned = [],
            context_after = model_context self @
              map (\<lambda>m. UserMessage (msg_content m) (msg_source m))
                (takeWhile (\<lambda>m. \<not> is_MultiModalMessage m) messages),
            world_after = w\<rparr>"
proof -
  obtain err ctx1 where am: "add_messages self messages (model_context self) = (err, ctx1)"
    by (cases "add_messages self messages (model_context self)")
  have "err = Some (ValueError ''The model does not support vision.'')"
    using add_messages_outcome[of self messages "model_context self"] am assms by auto
  moreover have "ctx1 = model_context self @
      map (\<lambda>m. UserMessage (msg_content m) (msg_source m))
        (takeWhile (\<lambda>m. \<not> is_MultiModalMessage m) messages)"
    using add_messages_context[of self messages "model_context self"] am assms(1) by simp
  ultimately show ?thesis using am by (simp add: on_messages_stream_def)
qed

theorem vision_refusal_keeps_earlier_messages_witness:
  "\<not> vision (model_client (example_agent (scripted_client False [text_reply ''ok'']) [] [] False ''{result}''))
   \<and> (\<exists>m\<in>set [hello, picture]. is_MultiModalMessage m)
   \<and> on_messages_stream
      (example_agent (scripted_client False [text_reply ''ok'']) [] [] False ''{result}'')
      example_python [] [hello, picture] 0
     = \<lparr>yielded = [], raised = Some (ValueError ''The model does not support vision.''),
        warned = [], context_after = [UserMessage (UStr ''hi'') ''user''], world_after = 0\<rparr>"
proof -
  let ?a = "example_agent (scripted_client False [text_reply ''ok'']) [] [] False ''{result}''"
  have h1: "\<not> vision (model_client ?a)" by (simp add: example_agent_def scripted_client_def)
  have h2: "\<exists>m\<in>set [hello, picture]. is_MultiModalMessage m" by (simp add: picture_def)
  show ?thesis
    using h1 h2 vision_refusal_keeps_earlier_messages [OF h1 h2, of example_python "[]" 0]
    by (simp add: example_agent_def hello_def picture_def)
qed

text \<open>
  Claim C4, as the spec states it, fails: a text message followed by a multi-modal
  message, sent to an agent whose model has no vision and whose context is empty, leaves
  a context that is not the one before the turn.
\<close>

theorem vision_refusal_changes_context:
  "context_after (on_messages_stream
      (example_agent (scripted_client False [text_reply ''ok'']) [] [] False ''{result}'')
      example_python [] [hello, picture] 0)
    \<noteq> model_context (example_agent (scripted_client False [text_reply ''ok'']) [] [] False ''{result}'')"
  by (simp add: on_messages_stream_def example_agent_def scripted_client_def hello_def picture_def
      add_message_def)

section \<open>Save and load\<close>

text \<open>
  Claim C8. Whatever the model context of an agent holds, saving its state and loading
  that state into any other agent gives the other agent the same context: the same
  messages in the same order.
\<close>

theorem save_then_load_restores_context:
  "model_context (load_state other (save_state self)) = model_context self"
  by (simp add: load_state_def save_state_def context_save_state_def)

section \<open>A turn that ends with text\<close>

lemma turn_reaches_tool_calls:
  assumes "add_messages self messages (model_context self) = (None, ctx1)"
    and "update_with_memory self ctx1 w = (None, inner, ctx2, w2)"
    and "create (model_client self) (system_messages self @ ctx2)
           (tools self @ handoff_tools self) w2 = (Inr result, w3)"
    and "cr_content result = ACalls calls"
  shows "on_messages_stream self py schedule messages w =
           process_tool_calls self py schedule inner
             (ctx2 @ [AssistantMessage (ACalls calls) (name self)]) calls (cr_usage result) w3"
  using assms by (simp add: on_messages_stream_def get_messages_def add_message_def)

text \<open>
  Claim C5. When the messages have been added, the memory has been consulted and the
  first call of the model client returns plain text, the turn yields the memory query
  events and then one Response, whose chat message is a text message with that text, the
  name of the agent and the usage of the call. It is the only Response, no tool call
  request or execution event is yielded, nothing is raised, the context receives the
  assistant message, and the world is the one that this first call of the client has
  left: no collaborator is called after it.
\<close>

theorem text_reply_ends_turn:
  assumes "add_messages self messages (model_context self) = (None, ctx1)"
    and "update_with_memory self ctx1 w = (None, inner, ctx2, w2)"
    and "create (model_client self) (system_messages self @ ctx2)
           (tools self @ handoff_tools self) w2 = (Inr result, w3)"
    and "cr_content result = AStr reply"
  shows "on_messages_stream self py schedule messages w =
           \<lparr>yielded = map YieldEvent inner @
              [YieldResponse
                 \<lparr>chat_message = TextMessage reply (name self) (Some (cr_usage result)),
                  inner_messages = inner\<rparr>],
            raised = None,
            warned = [],
            context_after = ctx2 @ [AssistantMessage (AStr reply) (name self)],
            world_after = w3\<rparr>
         \<and> responses_of (yielded (on_messages_stream self py schedule messages w)) =
             [\<lparr>chat_message = TextMessage reply (name self) (Some (cr_usage result)),
               inner_messages = inner\<rparr>]
         \<and> (\<forall>e. YieldEvent e \<in> set (yielded (on_messages_stream self py schedule messages w))
               \<longrightarrow> \<not> is_tool_call_event e)"
proof -
  have eq: "on_messages_stream self py schedule messages w =
           \<lparr>yielded = map YieldEvent inner @
              [YieldResponse
                 \<lparr>chat_message = TextMessage reply (name self) (Some (cr_usage result)),
                  inner_messages = inner\<rparr>],
            raised = None,
            warned = [],
            context_after = ctx2 @ [AssistantMessage (AStr reply) (name self)],
            world_after = w3\<rparr>"
    using assms by (simp add: on_messages_stream_def get_messages_def add_message_def)
  have r: "\<And>evs items. responses_of (map YieldEvent evs @ items) = responses_of items"
    subgoal for evs items by (induction evs) auto
    done
  have inner: "\<forall>e\<in>set inner. \<not> is_tool_call_event e"
    using update_with_memory_events[OF assms(2)] by blast
  show ?thesis unfolding eq using inner by (auto simp: r)
qed

theorem text_reply_ends_turn_witness:
  "on_messages_stream (example_agent (scripted_client False [text_reply ''Paris'']) [] [] False ''{result}'')
     example_python [] [hello] 0 =
     \<lparr>yielded = [YieldResponse
                   \<lparr>chat_message = TextMessage ''Paris'' ''assistant'' (Some example_usage),
                    inner_messages = []\<rparr>],
      raised = None, warned = [],
      context_after = [UserMessage (UStr ''hi'') ''user'', AssistantMessage (AStr ''Paris'') ''assistant''],
      world_after = Suc 0\<rparr>"
proof -
  let ?a = "example_agent (scripted_client False [text_reply ''Paris'']) [] [] False ''{result}''"
  let ?r = "\<lparr>cr_content = AStr ''Paris'', cr_usage = example_usage\<rparr>"
  have h1: "add_messages ?a [hello] (model_context ?a) = (None, [UserMessage (UStr ''hi'') ''user''])"
    by (simp add: example_defs turn_defs)
  have h2: "update_with_memory ?a [UserMessage (UStr ''hi'') ''user''] 0
              = (None, [], [UserMessage (UStr ''hi'') ''user''], 0)"
    by (simp add: example_defs turn_defs)
  have h3: "create (model_client ?a) (system_messages ?a @ [UserMessage (UStr ''hi'') ''user''])
              (tools ?a @ handoff_tools ?a) 0 = (Inr ?r, Suc 0)"
    by (simp add: example_defs turn_defs)
  have h4: "cr_content ?r = AStr ''Paris''" by simp
  show ?thesis
    using text_reply_ends_turn [OF h1 h2 h3 h4, of example_python "[]"]
    by (simp add: example_defs)
qed

section \<open>A turn that ends with a summary\<close>

lemma tool_call_summaries_Inr:
  assumes "length results = length calls" and "length ss = length calls"
    and "\<forall>i<length calls. format_summary py fmt (calls ! i) (results ! i) = Inr (ss ! i)"
    and "\<forall>i\<in>set idx. i < length calls"
  shows "tool_call_summaries py fmt calls results idx = Inr (map (\<lambda>i. ss ! i) idx)"
  using assms(4)
proof (induction idx)
  case Nil
  then show ?case by simp
next
  case (Cons i rest)
  then show ?case using assms(1,2,3) by simp
qed

lemma summaries_of_pairs:
  assumes "length results = length calls"
    and "map2 (format_summary py fmt) calls results = map Inr ss"
  shows "tool_call_summaries py fmt calls results [0..<length calls] = Inr ss"
proof -
  have len: "length ss = length calls"
    using arg_cong[OF assms(2), of length] assms(1) by simp
  have nth: "\<forall>i<length calls. format_summary py fmt (calls ! i) (results ! i) = Inr (ss ! i)"
  proof (intro allI impI)
    fix i assume i: "i < length calls"
    have "map2 (format_summary py fmt) calls results ! i = map Inr ss ! i" using assms(2) by simp
    then show "format_summary py fmt (calls ! i) (results ! i) = Inr (ss ! i)"
      using i len assms(1) by simp
  qed
  have "tool_call_summaries py fmt calls results [0..<length calls]
          = Inr (map (\<lambda>i. ss ! i) [0..<length calls])"
    by (rule tool_call_summaries_Inr[OF assms(1) len nth]) simp
  then show ?thesis using len map_nth[of ss] by simp
qed

lemma format_result_only: "format_summary py ''{result}'' call r = Inr (fer_content r)"
  by (simp add: format_summary_def is_identifier_def is_identifier_char_def)

lemma responses_after_events:
  "responses_of (map YieldEvent evs @ items) = responses_of items"
  by (induction evs) auto

lemma str_join_closed:
  "str_join sep items =
     (case items of
        [] \<Rightarrow> []
      | _ # _ \<Rightarrow> concat (map (\<lambda>s. s @ sep) (butlast items)) @ last items)"
  by (induction sep items rule: str_join.induct) auto

lemma tool_call_summaries_Inl:
  assumes "length results = length calls"
    and "i < length calls"
    and "format_summary py fmt (calls ! i) (results ! i) = Inl e"
    and "\<forall>j\<in>set before. j < length calls \<and> (\<exists>s. format_summary py fmt (calls ! j) (results ! j) = Inr s)"
  shows "tool_call_summaries py fmt calls results (before @ i # after) = Inl e"
  using assms(4)
proof (induction before)
  case Nil
  then show ?case using assms(1,2,3) by simp
next
  case (Cons j rest)
  then show ?case using assms(1) by auto
qed

lemma summaries_first_failure:
  assumes "length results = length calls"
    and "i < length calls"
    and "format_summary py fmt (calls ! i) (results ! i) = Inl e"
    and "\<forall>j<i. \<exists>s. format_summary py fmt (calls ! j) (results ! j) = Inr s"
  shows "tool_call_summaries py fmt calls results [0..<length calls] = Inl e"
proof -
  have split: "[0..<length calls] = [0..<i] @ i # [Suc i..<length calls]"
    using assms(2) by (metis less_imp_le_nat upt_add_eq_append upt_conv_Cons le0 le_add_diff_inverse)
  show ?thesis unfolding split
    by (rule tool_call_summaries_Inl[OF assms(1,2,3)]) (use assms(2,4) in auto)
qed

text \<open>
  Claim C6, as the code has it. Take a turn with tool calls whose batch has returned,
  with no handoff among the requests and with reflection off. When \<^verbatim>\<open>str.format\<close>
  accepts the template for every pair of a request and its result, the one Response of
  the turn is a tool call summary message; its content is the formatted pairs in request
  order, each but the last followed by one newline, and nothing is raised. With the
  template \<^verbatim>\<open>{result}\<close> the formatted pairs are the contents of the results. When
  \<^verbatim>\<open>str.format\<close> raises on some pair and accepts the pairs before it, the turn raises
  the same and yields no Response. A template may name the three keywords:
  \<^verbatim>\<open>{tool_name}({arguments}): {result}\<close> gives the name of the request, its arguments in
  brackets, a colon and the content of the result.
\<close>

theorem summary_joins_formatted_pairs:
  assumes "add_messages self messages (model_context self) = (None, ctx1)"
    and "update_with_memory self ctx1 w = (None, inner, ctx2, w2)"
    and "create (model_client self) (system_messages self @ ctx2)
           (tools self @ handoff_tools self) w2 = (Inr result, w3)"
    and "cr_content result = ACalls calls"
    and "execute_tool_calls self py schedule calls w3 = (Inr results, w4)"
    and "detect_handoffs (handoffs self) calls = []"
    and "\<not> reflect_on_tool_use self"
  shows "(map2 (format_summary py (tool_call_summary_format self)) calls results = map Inr summaries
          \<longrightarrow>
          responses_of (yielded (on_messages_stream self py schedule messages w)) =
            [\<lparr>chat_message =
                ToolCallSummaryMessage
                  (case summaries of
                     [] \<Rightarrow> []
                   | _ # _ \<Rightarrow>
                       concat (map (\<lambda>s. s @ [CHR 0x0A]) (butlast summaries)) @ last summaries)
                  (name self) None,
              inner_messages = inner @
                [ToolCallRequestEvent calls (name self) (Some (cr_usage result)),
                 ToolCallExecutionEvent results (name self)]\<rparr>]
          \<and> raised (on_messages_stream self py schedule messages w) = None
          \<and> (tool_call_summary_format self = ''{result}'' \<longrightarrow> summaries = map fer_content results))
       \<and> (i < length calls
           \<and> format_summary py (tool_call_summary_format self) (calls ! i) (results ! i) = Inl e
           \<and> (\<forall>j<i. \<exists>s. format_summary py (tool_call_summary_format self) (calls ! j) (results ! j) = Inr s)
          \<longrightarrow>
          raised (on_messages_stream self py schedule messages w) = Some e
          \<and> responses_of (yielded (on_messages_stream self py schedule messages w)) = [])
       \<and> format_summary py ''{tool_name}({arguments}): {result}'' any_call any_result =
            Inr (fc_name any_call @ ''('' @ fc_arguments any_call @ ''): '' @ fer_content any_result)"
proof -
  have fields: "format_summary py ''{tool_name}({arguments}): {result}'' any_call any_result =
             Inr (fc_name any_call @ ''('' @ fc_arguments any_call @ ''): '' @ fer_content any_result)"
    by (simp add: format_summary_def is_identifier_def is_identifier_char_def)
  have len: "length results = length calls"
    using execute_tool_calls_results[OF assms(5)] by simp
  have eq: "on_messages_stream self py schedule messages w =
           process_tool_calls self py schedule inner
             (ctx2 @ [AssistantMessage (ACalls calls) (name self)]) calls (cr_usage result) w3"
    by (rule turn_reaches_tool_calls[OF assms(1-4)])
  have good: "responses_of (yielded (on_messages_stream self py schedule messages w)) =
            [\<lparr>chat_message =
                ToolCallSummaryMessage
                  (case summaries of
                     [] \<Rightarrow> []
                   | _ # _ \<Rightarrow>
                       concat (map (\<lambda>s. s @ [CHR 0x0A]) (butlast summaries)) @ last summaries)
                  (name self) None,
              inner_messages = inner @
                [ToolCallRequestEvent calls (name self) (Some (cr_usage result)),
                 ToolCallExecutionEvent results (name self)]\<rparr>]
          \<and> raised (on_messages_stream self py schedule messages w) = None
          \<and> (tool_call_summary_format self = ''{result}'' \<longrightarrow> summaries = map fer_content results)"
    if pairs: "map2 (format_summary py (tool_call_summary_format self)) calls results = map Inr summaries"
  proof -
    have s: "tool_call_summaries py (tool_call_summary_format self) calls results [0..<length calls]
             = Inr summaries"
      by (rule summaries_of_pairs[OF len pairs])
    have main: "responses_of (yielded (on_messages_stream self py schedule messages w)) =
           [\<lparr>chat_message = ToolCallSummaryMessage (str_join [CHR 0x0A] summaries) (name self) None,
             inner_messages = inner @
               [ToolCallRequestEvent calls (name self) (Some (cr_usage result)),
                ToolCallExecutionEvent results (name self)]\<rparr>]
         \<and> raised (on_messages_stream self py schedule messages w) = None"
      unfolding eq using assms(5,6,7) s
      by (simp add: process_tool_calls_def Let_def responses_after_events)
    have "summaries = map fer_content results" if f: "tool_call_summary_format self = ''{result}''"
    proof -
      have "map Inr summaries = (map2 (\<lambda>c r. Inr (fer_content r)) calls results :: (py_exn + string) list)"
        using pairs unfolding f by (simp add: format_result_only)
      also have "\<dots> = map Inr (map fer_content results)"
        using len by (induction calls results rule: list_induct2') auto
      finally have "map Inr summaries = (map Inr (map fer_content results) :: (py_exn + string) list)" .
      then show ?thesis using inj_map_eq_map[OF inj_Inr] by blast
    qed
    with main show ?thesis unfolding str_join_closed[of "[CHR 0x0A]" summaries] by blast
  qed
  have bad: "raised (on_messages_stream self py schedule messages w) = Some e
          \<and> responses_of (yielded (on_messages_stream self py schedule messages w)) = []"
    if fails: "i < length calls
           \<and> format_summary py (tool_call_summary_format self) (calls ! i) (results ! i) = Inl e
           \<and> (\<forall>j<i. \<exists>s. format_summary py (tool_call_summary_format self) (calls ! j) (results ! j) = Inr s)"
  proof -
    have s: "tool_call_summaries py (tool_call_summary_format self) calls results [0..<length calls]
             = Inl e"
      by (rule summaries_first_failure[OF len]) (use fails in auto)
    show ?thesis unfolding eq using assms(5,6,7) s
      by (simp add: process_tool_calls_def Let_def responses_after_events)
  qed
  from good bad fields show ?thesis by blast
qed

theorem summary_joins_formatted_pairs_witness:
  "responses_of (yielded (on_messages_stream
      (example_agent (scripted_client False [calls_reply [call1, call2]]) [get_time, broken_tool] []
         False ''{result}'')
      example_python [1, 0] [hello] 0)) =
     [\<lparr>chat_message =
         ToolCallSummaryMessage (''12:00'' @ [CHR 0x0A] @ ''Error: boom'') ''assistant'' None,
       inner_messages =
         [ToolCallRequestEvent [call1, call2] ''assistant'' (Some example_usage),
          ToolCallExecutionEvent
            [\<lparr>fer_content = ''12:00'', fer_call_id = ''c1''\<rparr>,
             \<lparr>fer_content = ''Error: boom'', fer_call_id = ''c2''\<rparr>] ''assistant'']\<rparr>]
   \<and> responses_of (yielded (on_messages_stream
      (example_agent (scripted_client False [calls_reply [call1]]) [get_time] [] False ''{result}'')
      example_python [] [hello] 0)) =
     [\<lparr>chat_message = ToolCallSummaryMessage ''12:00'' ''assistant'' None,
       inner_messages =
         [ToolCallRequestEvent [call1] ''assistant'' (Some example_usage),
          ToolCallExecutionEvent [\<lparr>fer_content = ''12:00'', fer_call_id = ''c1''\<rparr>] ''assistant'']\<rparr>]"
proof -
  let ?a = "example_agent (scripted_client False [calls_reply [call1, call2]]) [get_time, broken_tool] []
         False ''{result}''"
  let ?r = "\<lparr>cr_content = ACalls [call1, call2], cr_usage = example_usage\<rparr>"
  let ?res = "[\<lparr>fer_content = ''12:00'', fer_call_id = ''c1''\<rparr>,
               \<lparr>fer_content = ''Error: boom'', fer_call_id = ''c2''\<rparr>]"
  let ?ctx = "[UserMessage (UStr ''hi'') ''user'']"
  have h1: "add_messages ?a [hello] (model_context ?a) = (None, ?ctx)"
    by (simp add: example_defs turn_defs)
  have h2: "update_with_memory ?a ?ctx 0 = (None, [], ?ctx, 0)"
    by (simp add: example_defs turn_defs)
  have h3: "create (model_client ?a) (system_messages ?a @ ?ctx)
              (tools ?a @ handoff_tools ?a) 0 = (Inr ?r, Suc 0)"
    by (simp add: example_defs turn_defs)
  have h4: "cr_content ?r = ACalls [call1, call2]" by simp
  have h5: "execute_tool_calls ?a example_python [1, 0] [call1, call2] (Suc 0) = (Inr ?res, Suc 0)"
    by (simp add: example_defs turn_defs upt_small)
  have h6: "detect_handoffs (handoffs ?a) [call1, call2] = []"
    by (simp add: example_defs)
  have h7: "\<not> reflect_on_tool_use ?a" by (simp add: example_defs)
  have h8: "map2 (format_summary example_python (tool_call_summary_format ?a)) [call1, call2] ?res
              = map Inr [''12:00'', ''Error: boom'']"
    by (simp add: example_defs turn_defs)
  have two: "responses_of (yielded (on_messages_stream ?a example_python [1, 0] [hello] 0)) =
     [\<lparr>chat_message =
         ToolCallSummaryMessage (''12:00'' @ [CHR 0x0A] @ ''Error: boom'') ''assistant'' None,
       inner_messages =
         [ToolCallRequestEvent [call1, call2] ''assistant'' (Some example_usage),
          ToolCallExecutionEvent ?res ''assistant'']\<rparr>]"
    using summary_joins_formatted_pairs [OF h1 h2 h3 h4 h5 h6 h7, where summaries = "[''12:00'', ''Error: boom'']"] h8
    by (simp add: example_agent_def)
  have one: "responses_of (yielded (on_messages_stream
      (example_agent (scripted_client False [calls_reply [call1]]) [get_time] [] False ''{result}'')
      example_python [] [hello] 0)) =
     [\<lparr>chat_message = ToolCallSummaryMessage ''12:00'' ''assistant'' None,
       inner_messages =
         [ToolCallRequestEvent [call1] ''assistant'' (Some example_usage),
          ToolCallExecutionEvent [\<lparr>fer_content = ''12:00'', fer_call_id = ''c1''\<rparr>] ''assistant'']\<rparr>]"
    by (simp add: on_messages_stream_def process_tool_calls_def Let_def example_defs turn_defs upt_small)
  from two one show ?thesis by blast
qed

text \<open>
  Claim C6, as the spec states it, fails: a turn with a tool call, no handoff and
  reflection off need not have a Response. With the template \<^verbatim>\<open>{missing}\<close> the
  formatting raises \<^verbatim>\<open>KeyError\<close> and so does the turn; and when the tool raises outside
  the \<^verbatim>\<open>Exception\<close> hierarchy the turn raises before any summary is made.
\<close>

theorem summary_needs_accepted_template:
  "raised (on_messages_stream
      (example_agent (scripted_client False [calls_reply [call1]]) [get_time] [] False ''{missing}'')
      example_python [] [hello] 0) = Some (KeyError (quote ''missing''))
   \<and> responses_of (yielded (on_messages_stream
      (example_agent (scripted_client False [calls_reply [call1]]) [get_time] [] False ''{missing}'')
      example_python [] [hello] 0)) = []
   \<and> raised (on_messages_stream
      (example_agent (scripted_client False [calls_reply [call3]]) [cancelled_tool] [] False ''{result}'')
      example_python [] [hello] 0) = Some (BaseExceptionOnly ''CancelledError'')
   \<and> responses_of (yielded (on_messages_stream
      (example_agent (scripted_client False [calls_reply [call3]]) [cancelled_tool] [] False ''{result}'')
      example_python [] [hello] 0)) = []"
  by (simp add: on_messages_stream_def process_tool_calls_def Let_def example_defs turn_defs upt_small)

section \<open>A turn that ends with a reflection\<close>

text \<open>
  Claim C9. In a turn with tool calls whose batch has returned, with no handoff among the
  requests and with reflection on, the model client is called a second time, on the
  system messages followed by the context with the assistant message and the result
  message of this turn, and with no tools. If this call returns text, the one Response
  of the turn is a text message with that text and the usage of the second call, and the
  context receives the assistant message. If it returns calls, the turn raises
  \<^verbatim>\<open>AssertionError\<close>, yields no Response and leaves the context without a further
  message. If it raises, the turn raises the same.
\<close>

theorem reflection_requires_text:
  assumes "add_messages self messages (model_context self) = (None, ctx1)"
    and "update_with_memory self ctx1 w = (None, inner, ctx2, w2)"
    and "create (model_client self) (system_messages self @ ctx2)
           (tools self @ handoff_tools self) w2 = (Inr result, w3)"
    and "cr_content result = ACalls calls"
    and "execute_tool_calls self py schedule calls w3 = (Inr results, w4)"
    and "detect_handoffs (handoffs self) calls = []"
    and "reflect_on_tool_use self"
  shows "case create (model_client self)
                (system_messages self @ ctx2 @
                   [AssistantMessage (ACalls calls) (name self),
                    FunctionExecutionResultMessage results]) [] w4 of
           (Inl e, w5) \<Rightarrow>
             raised (on_messages_stream self py schedule messages w) = Some e
             \<and> responses_of (yielded (on_messages_stream self py schedule messages w)) = []
         | (Inr second, w5) \<Rightarrow>
             (case cr_content second of
                AStr reply \<Rightarrow>
                  responses_of (yielded (on_messages_stream self py schedule messages w)) =
                    [\<lparr>chat_message = TextMessage reply (name self) (Some (cr_usage second)),
                      inner_messages = inner @
                        [ToolCallRequestEvent calls (name self) (Some (cr_usage result)),
                         ToolCallExecutionEvent results (name self)]\<rparr>]
                  \<and> raised (on_messages_stream self py schedule messages w) = None
                  \<and> context_after (on_messages_stream self py schedule messages w) =
                      ctx2 @ [AssistantMessage (ACalls calls) (name self),
                              FunctionExecutionResultMessage results,
                              AssistantMessage (AStr reply) (name self)]
                  \<and> world_after (on_messages_stream self py schedule messages w) = w5
              | ACalls further \<Rightarrow>
                  raised (on_messages_stream self py schedule messages w)
                    = Some (AssertionError [])
                  \<and> responses_of (yielded (on_messages_stream self py schedule messages w)) = []
                  \<and> context_after (on_messages_stream self py schedule messages w) =
                      ctx2 @ [AssistantMessage (ACalls calls) (name self),
                              FunctionExecutionResultMessage results])"
proof -
  have eq: "on_messages_stream self py schedule messages w =
           process_tool_calls self py schedule inner
             (ctx2 @ [AssistantMessage (ACalls calls) (name self)]) calls (cr_usage result) w3"
    by (rule turn_reaches_tool_calls[OF assms(1-4)])
  have ev: "\<And>evs. responses_of (map YieldEvent evs) = []"
    using responses_after_events[of _ "[]"] by simp
  show ?thesis
    unfolding eq using assms(5,6,7)
    by (simp add: process_tool_calls_def Let_def get_messages_def add_message_def
        responses_after_events ev
        split: prod.splits sum.splits assistant_content.splits)
qed

theorem reflection_requires_text_witness:
  "responses_of (yielded (on_messages_stream
      (example_agent (scripted_client False [calls_reply [call1], text_reply ''It is noon.''])
         [get_time] [] True ''{result}'')
      example_python [] [hello] 0)) =
     [\<lparr>chat_message = TextMessage ''It is noon.'' ''assistant'' (Some example_usage),
       inner_messages =
         [ToolCallRequestEvent [call1] ''assistant'' (Some example_usage),
          ToolCallExecutionEvent [\<lparr>fer_content = ''12:00'', fer_call_id = ''c1''\<rparr>] ''assistant'']\<rparr>]
   \<and> world_after (on_messages_stream
      (example_agent (scripted_client False [calls_reply [call1], text_reply ''It is noon.''])
         [get_time] [] True ''{result}'')
      example_python [] [hello] 0) = Suc (Suc 0)"
proof -
  let ?a = "example_agent (scripted_client False [calls_reply [call1], text_reply ''It is noon.''])
         [get_time] [] True ''{result}''"
  let ?r = "\<lparr>cr_content = ACalls [call1], cr_usage = example_usage\<rparr>"
  let ?res = "[\<lparr>fer_content = ''12:00'', fer_call_id = ''c1''\<rparr>]"
  have h1: "add_messages ?a [hello] (model_context ?a) = (None, [UserMessage (UStr ''hi'') ''user''])"
    by (simp add: example_defs turn_defs)
  have h2: "update_with_memory ?a [UserMessage (UStr ''hi'') ''user''] 0
              = (None, [], [UserMessage (UStr ''hi'') ''user''], 0)"
    by (simp add: example_defs turn_defs)
  have h3: "create (model_client ?a) (system_messages ?a @ [UserMessage (UStr ''hi'') ''user''])
              (tools ?a @ handoff_tools ?a) 0 = (Inr ?r, Suc 0)"
    by (simp add: example_defs turn_defs)
  have h4: "cr_content ?r = ACalls [call1]" by simp
  have h5: "execute_tool_calls ?a example_python [] [call1] (Suc 0) = (Inr ?res, Suc 0)"
    by (simp add: example_defs turn_defs upt_small)
  have h6: "detect_handoffs (handoffs ?a) [call1] = []"
    by (simp add: example_defs)
  have h7: "reflect_on_tool_use ?a" by (simp add: example_defs)
  have second: "create (model_client ?a)
      (system_messages ?a @ [UserMessage (UStr ''hi'') ''user''] @
         [AssistantMessage (ACalls [call1]) (name ?a), FunctionExecutionResultMessage ?res]) [] (Suc 0)
      = (Inr \<lparr>cr_content = AStr ''It is noon.'', cr_usage = example_usage\<rparr>, Suc (Suc 0))"
    by (simp add: example_defs turn_defs)
  show ?thesis
    using reflection_requires_text [OF h1 h2 h3 h4 h5 h6 h7]
    by (simp add: second) (simp add: example_defs)
qed

section \<open>A turn that ends with a handoff\<close>

lemma detect_handoffs_filter:
  "map Some (detect_handoffs m calls) =
     map (\<lambda>c. m (fc_name c)) (filter (\<lambda>c. m (fc_name c) \<noteq> None) calls)"
  by (induction calls) (auto split: option.splits)

text \<open>
  Claim C3, as the code has it. In a turn whose batch of tool calls has returned, when
  some requests bear the name of a registered handoff, the one Response of the turn is a
  handoff message with the message and the target of the handoff registered under the
  name of the first such request. Nothing is raised; the world is the one the batch has
  left, so the model client is not called again, and no summary is made, whatever the
  reflection flag and whatever the results of the calls. When more than one request
  matches, one warning is issued; it lists the \<open>name\<close> of the handoff of every matching
  request, in request order. With one match there is no warning.
\<close>

theorem handoff_ends_turn:
  assumes "add_messages self messages (model_context self) = (None, ctx1)"
    and "update_with_memory self ctx1 w = (None, inner, ctx2, w2)"
    and "create (model_client self) (system_messages self @ ctx2)
           (tools self @ handoff_tools self) w2 = (Inr result, w3)"
    and "cr_content result = ACalls calls"
    and "execute_tool_calls self py schedule calls w3 = (Inr results, w4)"
    and "filter (\<lambda>c. handoffs self (fc_name c) \<noteq> None) calls = first # others"
  shows "\<exists>h hs.
           handoffs self (fc_name first) = Some h
           \<and> map Some hs = map (\<lambda>c. handoffs self (fc_name c)) others
           \<and> responses_of (yielded (on_messages_stream self py schedule messages w)) =
               [\<lparr>chat_message = HandoffMessage (hb_message h) (hb_target h) (name self) None,
                 inner_messages = inner @
                   [ToolCallRequestEvent calls (name self) (Some (cr_usage result)),
                    ToolCallExecutionEvent results (name self)]\<rparr>]
           \<and> raised (on_messages_stream self py schedule messages w) = None
           \<and> warned (on_messages_stream self py schedule messages w) =
               (if others = [] then [] else [MultipleHandoffsWarning (map hb_name (h # hs))])
           \<and> context_after (on_messages_stream self py schedule messages w) =
               ctx2 @ [AssistantMessage (ACalls calls) (name self),
                       FunctionExecutionResultMessage results]
           \<and> world_after (on_messages_stream self py schedule messages w) = w4"
proof -
  have eq: "on_messages_stream self py schedule messages w =
           process_tool_calls self py schedule inner
             (ctx2 @ [AssistantMessage (ACalls calls) (name self)]) calls (cr_usage result) w3"
    by (rule turn_reaches_tool_calls[OF assms(1-4)])
  have "map Some (detect_handoffs (handoffs self) calls) =
          map (\<lambda>c. handoffs self (fc_name c)) (first # others)"
    using detect_handoffs_filter[of "handoffs self" calls] assms(6) by simp
  then obtain h hs where d: "detect_handoffs (handoffs self) calls = h # hs"
    and h: "handoffs self (fc_name first) = Some h"
    and hs: "map Some hs = map (\<lambda>c. handoffs self (fc_name c)) others"
    by (cases "detect_handoffs (handoffs self) calls") auto
  have len: "(hs = []) = (others = [])"
    using arg_cong[OF hs, of length] by auto
  show ?thesis
    apply (rule exI[of _ h], rule exI[of _ hs])
    unfolding eq using assms(5) d h hs len
    by (simp add: process_tool_calls_def Let_def add_message_def responses_after_events)
qed

theorem handoff_ends_turn_witness:
  "responses_of (yielded (on_messages_stream
      (example_agent (scripted_client False [calls_reply [call1, call_a, call_b]]) [get_time]
         [example_handoff ''agentA'' ''go_a'', example_handoff ''agentB'' ''go_b''] True ''{result}'')
      example_python [2, 0] [hello] 0)) =
     [\<lparr>chat_message = HandoffMessage ''Transferred to agentA'' ''agentA'' ''assistant'' None,
       inner_messages =
         [ToolCallRequestEvent [call1, call_a, call_b] ''assistant'' (Some example_usage),
          ToolCallExecutionEvent
            [\<lparr>fer_content = ''12:00'', fer_call_id = ''c1''\<rparr>,
             \<lparr>fer_content = ''Transferred to agentA'', fer_call_id = ''h1''\<rparr>,
             \<lparr>fer_content = ''Error: Expecting value: line 1 column 1 (char 0)'', fer_call_id = ''h2''\<rparr>]
            ''assistant'']\<rparr>]
   \<and> warned (on_messages_stream
      (example_agent (scripted_client False [calls_reply [call1, call_a, call_b]]) [get_time]
         [example_handoff ''agentA'' ''go_a'', example_handoff ''agentB'' ''go_b''] True ''{result}'')
      example_python [2, 0] [hello] 0) = [MultipleHandoffsWarning [''go_a'', ''go_b'']]
   \<and> world_after (on_messages_stream
      (example_agent (scripted_client False [calls_reply [call1, call_a, call_b]]) [get_time]
         [example_handoff ''agentA'' ''go_a'', example_handoff ''agentB'' ''go_b''] True ''{result}'')
      example_python [2, 0] [hello] 0) = Suc 0"
proof -
  let ?a = "example_agent (scripted_client False [calls_reply [call1, call_a, call_b]]) [get_time]
         [example_handoff ''agentA'' ''go_a'', example_handoff ''agentB'' ''go_b''] True ''{result}''"
  let ?r = "\<lparr>cr_content = ACalls [call1, call_a, call_b], cr_usage = example_usage\<rparr>"
  let ?res = "[\<lparr>fer_content = ''12:00'', fer_call_id = ''c1''\<rparr>,
             \<lparr>fer_content = ''Transferred to agentA'', fer_call_id = ''h1''\<rparr>,
             \<lparr>fer_content = ''Error: Expecting value: line 1 column 1 (char 0)'', fer_call_id = ''h2''\<rparr>]"
  have h1: "add_messages ?a [hello] (model_context ?a) = (None, [UserMessage (UStr ''hi'') ''user''])"
    by (simp add: example_defs turn_defs)
  have h2: "update_with_memory ?a [UserMessage (UStr ''hi'') ''user''] 0
              = (None, [], [UserMessage (UStr ''hi'') ''user''], 0)"
    by (simp add: example_defs turn_defs)
  have h3: "create (model_client ?a) (system_messages ?a @ [UserMessage (UStr ''hi'') ''user''])
              (tools ?a @ handoff_tools ?a) 0 = (Inr ?r, Suc 0)"
    by (simp add: example_defs turn_defs)
  have h4: "cr_content ?r = ACalls [call1, call_a, call_b]" by simp
  have h5: "execute_tool_calls ?a example_python [2, 0] [call1, call_a, call_b] (Suc 0)
              = (Inr ?res, Suc 0)"
    by (simp add: example_defs turn_defs upt_small)
  have h6: "filter (\<lambda>c. handoffs ?a (fc_name c) \<noteq> None) [call1, call_a, call_b] = call_a # [call_b]"
    by (simp add: example_defs)
  have ha: "handoffs ?a (fc_name call_a) = Some (example_handoff ''agentA'' ''go_a'')"
    by (simp add: example_agent_def call_a_def example_handoff_def)
  have hb: "handoffs ?a (fc_name call_b) = Some (example_handoff ''agentB'' ''go_b'')"
    by (simp add: example_agent_def call_b_def example_handoff_def)
  from handoff_ends_turn [OF h1 h2 h3 h4 h5 h6] ha hb
  show ?thesis
    by (auto simp: example_handoff_def) (simp_all add: example_agent_def)
qed

text \<open>
  Claim C3, as the spec states it, fails in two ways. The warning lists the names of the
  handoffs, not their targets: with handoffs \<open>go_a\<close> to \<open>agentA\<close> and \<open>go_b\<close> to \<open>agentB\<close>
  both requested, the warning holds \<open>go_a\<close> and \<open>go_b\<close>. And a request for a handoff does
  not end the turn with a handoff when another call of the batch raises outside the
  \<^verbatim>\<open>Exception\<close> hierarchy: the turn raises and yields no Response.
\<close>

theorem handoff_warning_lists_names:
  "warned (on_messages_stream
      (example_agent (scripted_client False [calls_reply [call_a, call_b]]) []
         [example_handoff ''agentA'' ''go_a'', example_handoff ''agentB'' ''go_b''] False ''{result}'')
      example_python [] [hello] 0) = [MultipleHandoffsWarning [''go_a'', ''go_b'']]
   \<and> map hb_target (detect_handoffs
        (handoffs (example_agent (scripted_client False [calls_reply [call_a, call_b]]) []
           [example_handoff ''agentA'' ''go_a'', example_handoff ''agentB'' ''go_b''] False ''{result}''))
        [call_a, call_b]) = [''agentA'', ''agentB'']
   \<and> responses_of (yielded (on_messages_stream
        (example_agent (scripted_client False [calls_reply [call_a, call3]]) [cancelled_tool]
           [example_handoff ''agentA'' ''go_a''] False ''{result}'')
        example_python [] [hello] 0)) = []
   \<and> raised (on_messages_stream
        (example_agent (scripted_client False [calls_reply [call_a, call3]]) [cancelled_tool]
           [example_handoff ''agentA'' ''go_a''] False ''{result}'')
        example_python [] [hello] 0) = Some (BaseExceptionOnly ''CancelledError'')"
  by (simp add: on_messages_stream_def process_tool_calls_def Let_def example_defs turn_defs upt_small)

section \<open>Failures of tool calls\<close>

lemma execute_tool_call_caught:
  "try_tool_call self py call w = (Inl e, w') \<Longrightarrow> is_Exception e \<Longrightarrow>
     execute_tool_call self py call w =
       (Inr \<lparr>fer_content = ''Error: '' @ exn_str e, fer_call_id = fc_id call\<rparr>, w')"
  by (simp add: execute_tool_call_def)









section \<open>Construction\<close>

lemma len_card_distinct: "(length xs \<noteq> card (set xs)) = (\<not> distinct xs)"
  using distinct_card[of xs] card_distinct[of xs] by auto

lemma register_tools_error:
  "register_tools ts acc = Inl e \<Longrightarrow> \<exists>msg. e = ValueError msg"
  by (induction ts acc rule: register_tools.induct) (auto simp: Let_def)

lemma register_handoffs_error:
  "register_handoffs from_target hs acc = Inl e \<Longrightarrow> \<exists>msg. e = ValueError msg"
  by (induction from_target hs acc rule: register_handoffs.induct) (auto simp: Let_def)

lemma init_error_class:
  assumes "AssistantAgent_init from_target args = Inl e"
  shows "(\<exists>msg. e = ValueError msg) \<or> (\<exists>msg. e = TypeError msg)"
  using assms
  by (auto simp: AssistantAgent_init_def Let_def
      split: option.splits memory_arg.splits sum.splits if_splits prod.splits
      dest: register_tools_error register_handoffs_error)

lemma init_registered:
  assumes "AssistantAgent_init from_target args = Inr agent"
  shows "(case arg_tools args of None \<Rightarrow> tools agent = []
          | Some ts \<Rightarrow> register_tools ts [] = Inr (tools agent))
       \<and> (case arg_handoffs args of None \<Rightarrow> handoff_tools agent = [] \<and> handoffs agent = Map.empty
          | Some hs \<Rightarrow> register_handoffs from_target hs ([], Map.empty)
                        = Inr (handoff_tools agent, handoffs agent))
       \<and> distinct (map tool_name (tools agent))
       \<and> distinct (map tool_name (handoff_tools agent))
       \<and> \<not> list_ex (\<lambda>n. n \<in> set (map tool_name (tools agent))) (map tool_name (handoff_tools agent))"
  using assms
  by (auto simp: AssistantAgent_init_def Let_def len_card_distinct
      split: option.splits memory_arg.splits sum.splits if_splits prod.splits)

lemma list_ex_disjoint: "(\<not> list_ex (\<lambda>n. n \<in> set xs) ys) = (set ys \<inter> set xs = {})"
  by (auto simp: list_ex_iff)

text \<open>
  Claim C7. An agent that the constructor returns has tools with distinct names, handoff
  tools with distinct names, and no name shared between the two. So when the tools that
  the arguments register have a repeated name, or the handoff tools have one, or a
  handoff tool bears the name of a tool, the constructor returns no agent: it raises
  \<^verbatim>\<open>ValueError\<close>, or \<^verbatim>\<open>TypeError\<close> when the memory argument is refused first. The
  checks are in the constructor only; a turn does not repeat them.
\<close>

theorem duplicate_names_fail_construction:
  "(AssistantAgent_init from_target args = Inr agent \<longrightarrow>
      distinct (map tool_name (tools agent))
      \<and> distinct (map tool_name (handoff_tools agent))
      \<and> set (map tool_name (handoff_tools agent)) \<inter> set (map tool_name (tools agent)) = {})
   \<and> ((arg_tools args = Some ts \<and> register_tools ts [] = Inr registered
         \<and> \<not> distinct (map tool_name registered))
       \<or> (arg_handoffs args = Some hs
           \<and> register_handoffs from_target hs ([], Map.empty) = Inr (registered_handoff_tools, hmap)
           \<and> \<not> distinct (map tool_name registered_handoff_tools))
       \<or> (arg_tools args = Some ts \<and> register_tools ts [] = Inr registered
           \<and> arg_handoffs args = Some hs
           \<and> register_handoffs from_target hs ([], Map.empty) = Inr (registered_handoff_tools, hmap)
           \<and> set (map tool_name registered_handoff_tools) \<inter> set (map tool_name registered) \<noteq> {})
       \<longrightarrow>
       (\<exists>msg. AssistantAgent_init from_target args = Inl (ValueError msg)
              \<or> AssistantAgent_init from_target args = Inl (TypeError msg)))"
proof (intro conjI impI)
  assume "AssistantAgent_init from_target args = Inr agent"
  from init_registered[OF this, unfolded list_ex_disjoint]
  show "distinct (map tool_name (tools agent))"
    and "distinct (map tool_name (handoff_tools agent))"
    and "set (map tool_name (handoff_tools agent)) \<inter> set (map tool_name (tools agent)) = {}"
    by blast+
next
  assume dup: "(arg_tools args = Some ts \<and> register_tools ts [] = Inr registered
         \<and> \<not> distinct (map tool_name registered))
       \<or> (arg_handoffs args = Some hs
           \<and> register_handoffs from_target hs ([], Map.empty) = Inr (registered_handoff_tools, hmap)
           \<and> \<not> distinct (map tool_name registered_handoff_tools))
       \<or> (arg_tools args = Some ts \<and> register_tools ts [] = Inr registered
           \<and> arg_handoffs args = Some hs
           \<and> register_handoffs from_target hs ([], Map.empty) = Inr (registered_handoff_tools, hmap)
           \<and> set (map tool_name registered_handoff_tools) \<inter> set (map tool_name registered) \<noteq> {})"
  show "\<exists>msg. AssistantAgent_init from_target args = Inl (ValueError msg)
              \<or> AssistantAgent_init from_target args = Inl (TypeError msg)"
  proof (cases "AssistantAgent_init from_target args")
    case (Inl e)
    then show ?thesis using init_error_class[OF Inl] by auto
  next
    case (Inr agent)
    from init_registered[OF Inr, unfolded list_ex_disjoint] dup have False
      by (elim disjE conjE) simp_all
    then show ?thesis ..
  qed
qed

theorem duplicate_names_fail_construction_witness:
  "AssistantAgent_init (\<lambda>target. example_handoff target (''transfer_to_'' @ target))
      (example_init_args [ToolInstance get_time, ToolInstance get_time] [])
     = Inl (ValueError ''Tool names must be unique: '')
   \<and> AssistantAgent_init (\<lambda>target. example_handoff target (''transfer_to_'' @ target))
      (example_init_args [ToolInstance get_time] [HandoffStr ''agentA'', HandoffStr ''agentA''])
     = Inl (ValueError ''Handoff names must be unique: '')
   \<and> AssistantAgent_init (\<lambda>target. example_handoff target (''transfer_to_'' @ target))
      (example_init_args [ToolInstance get_time]
         [HandoffInstance (example_handoff ''agentA'' ''get_time'')])
     = Inl (ValueError ''Handoff names must be unique from tool names. Handoff names: '')"
proof -
  let ?mk = "\<lambda>target. example_handoff target (''transfer_to_'' @ target)"
  let ?args = "example_init_args [ToolInstance get_time, ToolInstance get_time] []"
  have a: "arg_tools ?args = Some [ToolInstance get_time, ToolInstance get_time]"
    by (simp add: example_init_args_def)
  have b: "register_tools [ToolInstance get_time, ToolInstance get_time] [] = Inr [get_time, get_time]"
    by simp
  have c: "\<not> distinct (map tool_name [get_time, get_time])" by simp
  from duplicate_names_fail_construction [where from_target = ?mk and args = ?args
      and ts = "[ToolInstance get_time, ToolInstance get_time]" and registered = "[get_time, get_time]"]
    a b c
  have "\<exists>msg. AssistantAgent_init ?mk ?args = Inl (ValueError msg)
             \<or> AssistantAgent_init ?mk ?args = Inl (TypeError msg)"
    by blast
  moreover have "AssistantAgent_init ?mk ?args = Inl (ValueError ''Tool names must be unique: '')"
    by (simp add: AssistantAgent_init_def example_init_args_def scripted_client_def get_time_def)
  moreover have "AssistantAgent_init ?mk
      (example_init_args [ToolInstance get_time] [HandoffStr ''agentA'', HandoffStr ''agentA''])
     = Inl (ValueError ''Handoff names must be unique: '')"
    by (simp add: AssistantAgent_init_def example_init_args_def scripted_client_def get_time_def
        example_handoff_def Let_def)
  moreover have "AssistantAgent_init ?mk
      (example_init_args [ToolInstance get_time]
         [HandoffInstance (example_handoff ''agentA'' ''get_time'')])
     = Inl (ValueError ''Handoff names must be unique from tool names. Handoff names: '')"
    by (simp add: AssistantAgent_init_def example_init_args_def scripted_client_def get_time_def
        example_handoff_def Let_def)
  ultimately show ?thesis by blast
qed

end
